theory Spec2Isabelle
  imports Complex_Main
begin

section \<open>The order pipeline of the SQS sample: data model\<close>

text \<open>
  The repository holds three Lambda handlers around one FIFO queue with a dead-letter
  queue: OrderManager (ingestion), OrderProcessor (the consumer of the main queue) and
  DLQProcessor (the consumer of the dead-letter queue). They share two DynamoDB tables.

  JavaScript numbers are kept abstract: the records are polymorphic in the number type
  \<open>'n\<close>, and the code only uses \<open>0\<close>, \<open>+\<close> and \<open>*\<close> on it. Strings are
  \<open>string\<close>; the only characters the code inspects are ASCII.

  Everything the handlers cannot decide themselves is an explicit input: whether a call of
  \<open>dynamoDB.send\<close> or \<open>sqs.send\<close> resolves or throws, what \<open>new Date()\<close>,
  \<open>Date.now()\<close> and \<open>Math.random()\<close> return. A call that throws is taken to have
  had no effect on the table or queue; a call that resolves has carried out its request.
\<close>

text \<open>\<open>interface OrderItem\<close> and \<open>interface OrderEvent\<close> of OrderManager.\<close>

record 'n OrderItem =
  itemDetail :: string
  quantity :: 'n
  price :: 'n

record 'n OrderEvent =
  orderItems :: "'n OrderItem list"
  orderId :: string
  userId :: string
  orderStatus :: string

text \<open>The object \<open>orderRecord\<close> that \<open>addOrderToDatabase\<close> puts into OrdersTable.\<close>

record 'n order_record =
  ord_orderId :: string
  ord_userId :: string
  ord_orderStatus :: string
  ord_timestamp :: string
  totalItems :: nat
  totalValue :: 'n

text \<open>
  A row of OrderItemsTable. The key attributes \<open>orderId\<close> and \<open>itemId\<close> are always
  there; every other attribute is optional, because an \<open>UpdateCommand\<close> on a key that
  has no row creates a row holding the key and the attributes it sets, and because
  \<open>processedAt\<close> and \<open>failedAt\<close> are only written by the two consumers.
\<close>

record 'n item_record =
  row_orderId :: string
  row_itemId :: string
  row_itemDetail :: "string option"
  row_quantity :: "'n option"
  row_price :: "'n option"
  itemStatus :: "string option"
  row_timestamp :: "string option"
  processedAt :: "string option"
  failedAt :: "string option"

text \<open>\<open>interface OrderItemMessage\<close> of the two consumers.\<close>

record 'n OrderItemMessage =
  msg_orderId :: string
  msg_userId :: string
  msg_itemId :: string
  msg_itemDetail :: string
  msg_quantity :: 'n
  msg_price :: 'n
  msg_timestamp :: string

text \<open>
  An \<open>SQSRecord\<close>, as far as the handlers read it. \<open>body\<close> is the outcome of
  \<open>JSON.parse(record.body)\<close> read as an \<open>OrderItemMessage\<close>: \<open>None\<close> when
  \<open>JSON.parse\<close> throws.
\<close>

record 'n SQSRecord =
  messageId :: string
  body :: "'n OrderItemMessage option"

text \<open>
  The input of a \<open>SendMessageCommand\<close>. \<open>MessageBody\<close> is
  \<open>JSON.stringify(itemMessage)\<close>; the model keeps the object that is serialised.
\<close>

record 'n SendMessageCommand =
  MessageBody :: "'n item_record"
  MessageGroupId :: string
  MessageDeduplicationId :: string

text \<open>The calls a handler makes to the outside, in the order it makes them.\<close>

datatype effect =
    DbGet string string
  | DbUpdate string string
  | DbPut string
  | DbBatchWrite nat
  | UnitOfWork string
  | SqsSend string

datatype error =
    SyntaxError
  | DynamoDBError
  | SimulatedProcessingFailure string
  | SqsError

text \<open>
  OrdersTable has partition key \<open>orderId\<close> and sort key \<open>timestamp\<close>; OrderItemsTable
  has partition key \<open>orderId\<close> and sort key \<open>itemId\<close> (the CDK stack). \<open>queue\<close> holds
  the messages the main FIFO queue has accepted, oldest first.
\<close>

record 'n world =
  ordersTable :: "(string \<times> string) \<rightharpoonup> 'n order_record"
  orderItemsTable :: "(string \<times> string) \<rightharpoonup> 'n item_record"
  queue :: "'n SendMessageCommand list"
  effects :: "effect list"

definition log_effect :: "effect \<Rightarrow> 'n world \<Rightarrow> 'n world" where
  "log_effect x w = w\<lparr>effects := effects w @ [x]\<rparr>"

text \<open>The row an \<open>UpdateCommand\<close> starts from when the key has none.\<close>

definition key_only_row :: "string \<Rightarrow> string \<Rightarrow> 'n item_record" where
  "key_only_row oid iid =
     \<lparr>row_orderId = oid, row_itemId = iid, row_itemDetail = None, row_quantity = None,
      row_price = None, itemStatus = None, row_timestamp = None, processedAt = None,
      failedAt = None\<rparr>"

definition row_or_new :: "'n world \<Rightarrow> string \<Rightarrow> string \<Rightarrow> 'n item_record" where
  "row_or_new w oid iid =
     (case orderItemsTable w (oid, iid) of None \<Rightarrow> key_only_row oid iid | Some r \<Rightarrow> r)"

section \<open>OrderProcessor\<close>

text \<open>
  What the outside decides while one record is processed: whether the \<open>GetCommand\<close> and
  the \<open>UpdateCommand\<close> resolve, the value of \<open>Math.random()\<close> and the text of
  \<open>new Date().toISOString()\<close>.
\<close>

record proc_env =
  get_ok :: bool
  math_random :: real
  update_ok :: bool
  now_iso :: string

text \<open>\<open>s.slice(-n)\<close>: the last \<open>n\<close> characters, the whole string when it is shorter.\<close>

definition slice_from_end :: "nat \<Rightarrow> string \<Rightarrow> string" where
  "slice_from_end n s = drop (length s - n) s"

definition shouldSimulateFailure :: "real \<Rightarrow> string \<Rightarrow> bool" where
  "shouldSimulateFailure rnd iid =
     (let lastDigit = slice_from_end 1 iid in
      if lastDigit = ''3'' then True
      else if lastDigit = ''1'' then rnd < 1 / 2
      else False)"

definition processOrderItem ::
  "proc_env \<Rightarrow> 'n world \<Rightarrow> 'n OrderItemMessage \<Rightarrow> (error + unit) \<times> 'n world" where
  "processOrderItem e w itemMessage =
     (let w1 = log_effect (UnitOfWork (msg_itemId itemMessage)) w in
      if shouldSimulateFailure (math_random e) (msg_itemId itemMessage)
      then (Inl (SimulatedProcessingFailure (msg_itemId itemMessage)), w1)
      else (Inr (), w1))"

definition updateItemStatus ::
  "proc_env \<Rightarrow> 'n world \<Rightarrow> string \<Rightarrow> string \<Rightarrow> string \<Rightarrow> (error + unit) \<times> 'n world" where
  "updateItemStatus e w oid iid status =
     (let w1 = log_effect (DbUpdate oid iid) w in
      if update_ok e
      then (Inr (),
            w1\<lparr>orderItemsTable := (orderItemsTable w1)((oid, iid) \<mapsto>
                  (row_or_new w1 oid iid)\<lparr>itemStatus := Some status,
                                            processedAt := Some (now_iso e)\<rparr>)\<rparr>)
      else (Inl DynamoDBError, w1))"

definition has_status :: "'n item_record option \<Rightarrow> string \<Rightarrow> bool" where
  "has_status item s = (case item of None \<Rightarrow> False | Some r \<Rightarrow> itemStatus r = Some s)"

definition processRecord ::
  "proc_env \<Rightarrow> 'n world \<Rightarrow> 'n SQSRecord \<Rightarrow> (error + unit) \<times> 'n world" where
  "processRecord e w record =
     (case body record of
        None \<Rightarrow> (Inl SyntaxError, w)
      | Some itemMessage \<Rightarrow>
          (let w1 = log_effect (DbGet (msg_orderId itemMessage) (msg_itemId itemMessage)) w in
           if \<not> get_ok e then (Inl DynamoDBError, w1)
           else
             (let existingItem =
                    orderItemsTable w1 (msg_orderId itemMessage, msg_itemId itemMessage) in
              if has_status existingItem ''PROCESSED'' then (Inr (), w1)
              else if has_status existingItem ''FAILED'' then (Inr (), w1)
              else
                (case processOrderItem e w1 itemMessage of
                   (Inl err, w2) \<Rightarrow> (Inl err, w2)
                 | (Inr u, w2) \<Rightarrow>
                     updateItemStatus e w2 (msg_orderId itemMessage)
                       (msg_itemId itemMessage) ''PROCESSED''))))"

text \<open>
  \<open>handler\<close> of OrderProcessor: \<open>Promise.all\<close> over the records of the event. Every
  \<open>processRecord\<close> is started, so a rejection does not stop the others; the handler
  rejects when one of them rejects. The event source is configured with \<open>batchSize: 1\<close>,
  so an event carries one record; for a longer event the model runs the records one after
  the other. Each record comes with the outcomes of its own outside calls.
\<close>

fun processRecords ::
  "'n world \<Rightarrow> (proc_env \<times> 'n SQSRecord) list \<Rightarrow> (error + unit) list \<times> 'n world" where
  "processRecords w [] = ([], w)"
| "processRecords w ((e, r) # rest) =
     (case processRecord e w r of
        (res, w1) \<Rightarrow> (case processRecords w1 rest of (ress, w2) \<Rightarrow> (res # ress, w2)))"

definition first_rejection :: "(error + unit) list \<Rightarrow> error + unit" where
  "first_rejection ress = (case filter isl ress of [] \<Rightarrow> Inr () | x # _ \<Rightarrow> x)"

definition orderProcessor_handler ::
  "'n world \<Rightarrow> (proc_env \<times> 'n SQSRecord) list \<Rightarrow> (error + unit) \<times> 'n world" where
  "orderProcessor_handler w records =
     (case processRecords w records of (ress, w1) \<Rightarrow> (first_rejection ress, w1))"

section \<open>DLQProcessor\<close>

text \<open>
  What the outside decides while one dead-letter record is processed: whether the
  \<open>UpdateCommand\<close> resolves and the text of \<open>new Date().toISOString()\<close>.
\<close>

record dlq_env =
  dlq_update_ok :: bool
  dlq_now_iso :: string

definition updateItemStatusToFailed ::
  "dlq_env \<Rightarrow> 'n world \<Rightarrow> string \<Rightarrow> string \<Rightarrow> (error + unit) \<times> 'n world" where
  "updateItemStatusToFailed e w oid iid =
     (let w1 = log_effect (DbUpdate oid iid) w in
      if dlq_update_ok e
      then (Inr (),
            w1\<lparr>orderItemsTable := (orderItemsTable w1)((oid, iid) \<mapsto>
                  (row_or_new w1 oid iid)\<lparr>itemStatus := Some ''FAILED'',
                                            failedAt := Some (dlq_now_iso e)\<rparr>)\<rparr>)
      else (Inl DynamoDBError, w1))"

text \<open>The \<open>catch\<close> of \<open>processFailedItem\<close> logs the error and returns.\<close>

definition processFailedItem ::
  "dlq_env \<Rightarrow> 'n world \<Rightarrow> 'n OrderItemMessage \<Rightarrow> (error + unit) \<times> 'n world" where
  "processFailedItem e w itemMessage =
     (case updateItemStatusToFailed e w (msg_orderId itemMessage) (msg_itemId itemMessage) of
        (Inl err, w1) \<Rightarrow> (Inr (), w1)
      | (Inr u, w1) \<Rightarrow> (Inr (), w1))"

text \<open>The \<open>catch\<close> of \<open>processDLQRecord\<close> does the same, also for \<open>JSON.parse\<close>.\<close>

definition processDLQRecord ::
  "dlq_env \<Rightarrow> 'n world \<Rightarrow> 'n SQSRecord \<Rightarrow> (error + unit) \<times> 'n world" where
  "processDLQRecord e w record =
     (case body record of
        None \<Rightarrow> (Inr (), w)
      | Some itemMessage \<Rightarrow>
          (case processFailedItem e w itemMessage of
             (Inl err, w1) \<Rightarrow> (Inr (), w1)
           | (Inr u, w1) \<Rightarrow> (Inr (), w1)))"

fun processDLQRecords ::
  "'n world \<Rightarrow> (dlq_env \<times> 'n SQSRecord) list \<Rightarrow> (error + unit) list \<times> 'n world" where
  "processDLQRecords w [] = ([], w)"
| "processDLQRecords w ((e, r) # rest) =
     (case processDLQRecord e w r of
        (res, w1) \<Rightarrow> (case processDLQRecords w1 rest of (ress, w2) \<Rightarrow> (res # ress, w2)))"

text \<open>
  \<open>handler\<close> of DLQProcessor: \<open>Promise.allSettled\<close> resolves whatever its promises do.
\<close>

definition dlqProcessor_handler ::
  "'n world \<Rightarrow> (dlq_env \<times> 'n SQSRecord) list \<Rightarrow> (error + unit) \<times> 'n world" where
  "dlqProcessor_handler w records =
     (case processDLQRecords w records of (ress, w1) \<Rightarrow> (Inr (), w1))"

section \<open>OrderManager\<close>

text \<open>
  What the outside decides during one ingestion: the text of \<open>new Date().toISOString()\<close>,
  whether the \<open>PutCommand\<close> and the \<open>BatchWriteCommand\<close> resolve, the value of
  \<open>Date.now()\<close> when the message of each index is built, and whether the
  \<open>sqs.send\<close> of each index resolves.
\<close>

record mgr_env =
  mgr_now_iso :: string
  put_ok :: bool
  batch_ok :: bool
  date_now :: "nat \<Rightarrow> nat"
  send_ok :: "nat \<Rightarrow> bool"

text \<open>A natural number in a template literal: its decimal digits.\<close>

definition digit_char :: "nat \<Rightarrow> char" where
  "digit_char d = ''0123456789'' ! d"

fun string_of_nat :: "nat \<Rightarrow> string" where
  "string_of_nat n =
     (if n < 10 then [digit_char n] else string_of_nat (n div 10) @ [digit_char (n mod 10)])"

declare string_of_nat.simps [simp del]

definition make_orderRecord ::
  "string \<Rightarrow> string \<Rightarrow> string \<Rightarrow> string \<Rightarrow> ('n::{zero,plus,times}) OrderItem list
     \<Rightarrow> 'n order_record" where
  "make_orderRecord ts oid uid ostatus items =
     \<lparr>ord_orderId = oid, ord_userId = uid, ord_orderStatus = ostatus, ord_timestamp = ts,
      totalItems = length items,
      totalValue = foldl (\<lambda>sum item. sum + price item * quantity item) 0 items\<rparr>"

definition make_itemId :: "string \<Rightarrow> nat \<Rightarrow> string" where
  "make_itemId oid index = oid @ ''-item-'' @ string_of_nat index"

definition make_orderItemRecords ::
  "string \<Rightarrow> string \<Rightarrow> 'n OrderItem list \<Rightarrow> 'n item_record list" where
  "make_orderItemRecords ts oid items =
     map (\<lambda>(index, item).
            \<lparr>row_orderId = oid, row_itemId = make_itemId oid index,
             row_itemDetail = Some (itemDetail item), row_quantity = Some (quantity item),
             row_price = Some (price item), itemStatus = Some ''PENDING'',
             row_timestamp = Some ts, processedAt = None, failedAt = None\<rparr>)
         (enumerate 0 items)"

text \<open>The put requests of one \<open>BatchWriteCommand\<close>, carried out in order.\<close>

fun batch_put ::
  "((string \<times> string) \<rightharpoonup> 'n item_record) \<Rightarrow> 'n item_record list
     \<Rightarrow> ((string \<times> string) \<rightharpoonup> 'n item_record)" where
  "batch_put t [] = t"
| "batch_put t (r # rs) = batch_put (t((row_orderId r, row_itemId r) \<mapsto> r)) rs"

definition addOrderToDatabase ::
  "mgr_env \<Rightarrow> ('n::{zero,plus,times}) world \<Rightarrow> string \<Rightarrow> string \<Rightarrow> 'n OrderItem list \<Rightarrow> string
     \<Rightarrow> (error + 'n item_record list) \<times> 'n world" where
  "addOrderToDatabase e w oid uid items ostatus =
     (let timestamp = mgr_now_iso e;
          orderRecord = make_orderRecord timestamp oid uid ostatus items;
          orderItemRecords = make_orderItemRecords timestamp oid items;
          w1 = log_effect (DbPut oid) w
      in if \<not> put_ok e then (Inl DynamoDBError, w1)
         else
           (let w2 = w1\<lparr>ordersTable := (ordersTable w1)((oid, timestamp) \<mapsto> orderRecord)\<rparr>;
                w3 = log_effect (DbBatchWrite (length orderItemRecords)) w2
            in if \<not> batch_ok e then (Inl DynamoDBError, w3)
               else (Inr orderItemRecords,
                     w3\<lparr>orderItemsTable := batch_put (orderItemsTable w3) orderItemRecords\<rparr>)))"

definition make_dedupId :: "string \<Rightarrow> nat \<Rightarrow> nat \<Rightarrow> string" where
  "make_dedupId iid ms index = iid @ ''-'' @ string_of_nat ms @ ''-'' @ string_of_nat index"

definition make_commands :: "mgr_env \<Rightarrow> 'n item_record list \<Rightarrow> 'n SendMessageCommand list" where
  "make_commands e orderItemRecords =
     map (\<lambda>(index, itemMessage).
            \<lparr>MessageBody = itemMessage, MessageGroupId = row_orderId itemMessage,
             MessageDeduplicationId =
               make_dedupId (row_itemId itemMessage) (date_now e index) index\<rparr>)
         (enumerate 0 orderItemRecords)"

text \<open>
  Every \<open>sqs.send\<close> is started before \<open>Promise.all\<close> waits; the queue accepts the
  messages whose send resolves.
\<close>

fun sqs_send_all ::
  "mgr_env \<Rightarrow> 'n world \<Rightarrow> (nat \<times> 'n SendMessageCommand) list \<Rightarrow> 'n world" where
  "sqs_send_all e w [] = w"
| "sqs_send_all e w ((index, c) # rest) =
     (let w1 = log_effect (SqsSend (MessageDeduplicationId c)) w in
      sqs_send_all e (if send_ok e index then w1\<lparr>queue := queue w1 @ [c]\<rparr> else w1) rest)"

record APIGatewayProxyResult =
  statusCode :: nat
  resp_body :: string

definition success_response :: APIGatewayProxyResult where
  "success_response =
     \<lparr>statusCode = 200,
      resp_body = ''{'' @ [CHR 0x22] @ ''message'' @ [CHR 0x22] @ '':'' @ [CHR 0x22]
                  @ ''Orders processed successfully'' @ [CHR 0x22] @ ''}''\<rparr>"

text \<open>
  \<open>handler\<close> of OrderManager, the function that \<open>makeIdempotent\<close> wraps. The wrapper is
  the Powertools library's and is not modelled.
\<close>

definition orderManager_handler ::
  "mgr_env \<Rightarrow> ('n::{zero,plus,times}) world \<Rightarrow> 'n OrderEvent
     \<Rightarrow> (error + APIGatewayProxyResult) \<times> 'n world" where
  "orderManager_handler e w event =
     (case addOrderToDatabase e w (orderId event) (userId event) (orderItems event)
             (orderStatus event) of
        (Inl err, w1) \<Rightarrow> (Inl err, w1)
      | (Inr orderItemRecords, w1) \<Rightarrow>
          (let commands = make_commands e orderItemRecords;
               w2 = sqs_send_all e w1 (enumerate 0 commands)
           in if list_all (send_ok e) [0..<length commands]
              then (Inr success_response, w2)
              else (Inl SqsError, w2)))"

section \<open>Notions used in the statements\<close>

text \<open>The status stored for an item, if the item has a row and the row a status.\<close>

definition status_at :: "'n world \<Rightarrow> string \<times> string \<Rightarrow> string option" where
  "status_at w k = (case orderItemsTable w k of None \<Rightarrow> None | Some r \<Rightarrow> itemStatus r)"

definition terminal :: "string option \<Rightarrow> bool" where
  "terminal s = (s = Some ''PROCESSED'' \<or> s = Some ''FAILED'')"

definition ends_in :: "char \<Rightarrow> string \<Rightarrow> bool" where
  "ends_in c s = (s \<noteq> [] \<and> last s = c)"

definition is_digit :: "char \<Rightarrow> bool" where
  "is_digit c = (c \<in> set ''0123456789'')"

definition row_key :: "'n item_record \<Rightarrow> string \<times> string" where
  "row_key r = (row_orderId r, row_itemId r)"

text \<open>
  The item has a row whose status is FAILED and whose failedAt is one of the given times.
\<close>

definition marked_failed :: "'n world \<Rightarrow> string \<times> string \<Rightarrow> string set \<Rightarrow> bool" where
  "marked_failed w k ts =
     (case orderItemsTable w k of
        None \<Rightarrow> False
      | Some row \<Rightarrow>
          itemStatus row = Some ''FAILED''
          \<and> (case failedAt row of None \<Rightarrow> False | Some t \<Rightarrow> t \<in> ts))"

text \<open>The outside calls made between two states of the world.\<close>

definition new_effects :: "'n world \<Rightarrow> 'n world \<Rightarrow> effect list" where
  "new_effects w w' = drop (length (effects w)) (effects w')"

text \<open>The world as \<open>addOrderToDatabase\<close> leaves it for an event.\<close>

definition persisted ::
  "mgr_env \<Rightarrow> ('n::{zero,plus,times}) world \<Rightarrow> 'n OrderEvent \<Rightarrow> 'n world" where
  "persisted e w event =
     snd (addOrderToDatabase e w (orderId event) (userId event) (orderItems event)
            (orderStatus event))"

section \<open>Example data\<close>

text \<open>
  The order of the README's manual test: order-001 of user-001 with one Laptop at 999.99.
  Numbers are reals here.
\<close>

definition example_event :: "real OrderEvent" where
  "example_event =
     \<lparr>orderItems = [\<lparr>itemDetail = ''Laptop'', quantity = 1, price = 99999 / 100\<rparr>],
      orderId = ''order-001'', userId = ''user-001'', orderStatus = ''pending''\<rparr>"

definition example_event_other_user :: "real OrderEvent" where
  "example_event_other_user = example_event\<lparr>userId := ''user-002''\<rparr>"

definition example_mgr_env :: "bool \<Rightarrow> bool \<Rightarrow> bool \<Rightarrow> mgr_env" where
  "example_mgr_env p b s =
     \<lparr>mgr_now_iso = ''2025-01-01T00:00:00.000Z'', put_ok = p, batch_ok = b,
      date_now = (\<lambda>index. 1735689600000), send_ok = (\<lambda>index. s)\<rparr>"

definition empty_world :: "real world" where
  "empty_world =
     \<lparr>ordersTable = Map.empty, orderItemsTable = Map.empty, queue = [], effects = []\<rparr>"

text \<open>A row of that order with a given itemId and status, and a world holding only it.\<close>

definition example_row :: "string \<Rightarrow> string \<Rightarrow> real item_record" where
  "example_row iid st =
     \<lparr>row_orderId = ''order-001'', row_itemId = iid, row_itemDetail = Some ''Laptop'',
      row_quantity = Some 1, row_price = Some (99999 / 100), itemStatus = Some st,
      row_timestamp = Some ''2025-01-01T00:00:00.000Z'', processedAt = None,
      failedAt = None\<rparr>"

definition example_world :: "string \<Rightarrow> string \<Rightarrow> real world" where
  "example_world iid st =
     \<lparr>ordersTable = Map.empty,
      orderItemsTable = [(''order-001'', iid) \<mapsto> example_row iid st],
      queue = [], effects = []\<rparr>"

definition example_message :: "string \<Rightarrow> real OrderItemMessage" where
  "example_message iid =
     \<lparr>msg_orderId = ''order-001'', msg_userId = ''user-001'', msg_itemId = iid,
      msg_itemDetail = ''Laptop'', msg_quantity = 1, msg_price = 99999 / 100,
      msg_timestamp = ''2025-01-01T00:00:00.000Z''\<rparr>"

definition example_record :: "string \<Rightarrow> real SQSRecord" where
  "example_record iid = \<lparr>messageId = ''m-1'', body = Some (example_message iid)\<rparr>"

definition example_proc_env :: "real \<Rightarrow> proc_env" where
  "example_proc_env rnd =
     \<lparr>get_ok = True, math_random = rnd, update_ok = True,
      now_iso = ''2025-01-01T00:00:05.000Z''\<rparr>"

definition example_dlq_env :: "bool \<Rightarrow> dlq_env" where
  "example_dlq_env ok = \<lparr>dlq_update_ok = ok, dlq_now_iso = ''2025-01-01T00:02:00.000Z''\<rparr>"

section \<open>Properties of OrderProcessor\<close>

lemma has_status_status_at:
  "has_status (orderItemsTable w k) s = (status_at w k = Some s)"
  by (simp add: has_status_def status_at_def split: option.splits)

lemma log_effect_simps [simp]:
  "orderItemsTable (log_effect x w) = orderItemsTable w"
  "ordersTable (log_effect x w) = ordersTable w"
  "queue (log_effect x w) = queue w"
  "effects (log_effect x w) = effects w @ [x]"
  by (simp_all add: log_effect_def)

lemma status_at_log_effect [simp]: "status_at (log_effect x w) k = status_at w k"
  by (simp add: status_at_def)

lemma slice_last_ends_in: "ends_in c s \<Longrightarrow> slice_from_end 1 s = [c]"
proof -
  assume a: "ends_in c s"
  then obtain pre where "s = pre @ [c]"
    unfolding ends_in_def by (metis append_butlast_last_id)
  then show ?thesis by (simp add: slice_from_end_def)
qed

lemma shouldSimulateFailure_3: "ends_in CHR ''3'' iid \<Longrightarrow> shouldSimulateFailure rnd iid"
proof -
  assume "ends_in CHR ''3'' iid"
  then have "slice_from_end 1 iid = ''3''" by (rule slice_last_ends_in)
  then show ?thesis unfolding shouldSimulateFailure_def Let_def by simp
qed

lemma processRecord_work_fails:
  assumes "body r = Some m" "shouldSimulateFailure (math_random e) (msg_itemId m)"
  shows "orderItemsTable (snd (processRecord e w r)) = orderItemsTable w"
  using assms by (simp add: processRecord_def Let_def processOrderItem_def)

lemma processRecord_rejects:
  assumes "body r = Some m" "shouldSimulateFailure (math_random e) (msg_itemId m)"
    "\<not> terminal (status_at w (msg_orderId m, msg_itemId m))"
  shows "isl (fst (processRecord e w r))"
  using assms by (simp add: processRecord_def Let_def processOrderItem_def has_status_status_at terminal_def)

text \<open>The only row processRecord can change is the row of its message.\<close>

lemma processRecord_other_key:
  assumes "\<And>m. body r = Some m \<Longrightarrow> k \<noteq> (msg_orderId m, msg_itemId m)"
  shows "orderItemsTable (snd (processRecord e w r)) k = orderItemsTable w k"
  using assms
  by (auto simp: processRecord_def Let_def processOrderItem_def updateItemStatus_def
      split: option.splits)

lemma processRecord_terminal_kept:
  assumes "terminal (status_at w k)"
  shows "orderItemsTable (snd (processRecord e w r)) k = orderItemsTable w k"
proof (cases "body r")
  case None
  then show ?thesis by (simp add: processRecord_def)
next
  case (Some m)
  show ?thesis
  proof (cases "k = (msg_orderId m, msg_itemId m)")
    case True
    with Some assms show ?thesis
      by (auto simp: processRecord_def Let_def has_status_status_at terminal_def)
  next
    case False
    with Some show ?thesis by (intro processRecord_other_key) auto
  qed
qed

lemma processRecords_append:
  "processRecords w (xs @ ys) =
     (case processRecords w xs of
        (r1, w1) \<Rightarrow> (case processRecords w1 ys of (r2, w2) \<Rightarrow> (r1 @ r2, w2)))"
  by (induction xs arbitrary: w) (auto split: prod.splits)

lemma first_rejection_isl: "\<exists>x \<in> set ress. isl x \<Longrightarrow> isl (first_rejection ress)"
proof -
  assume "\<exists>x \<in> set ress. isl x"
  then have "filter isl ress \<noteq> []" by (simp add: filter_empty_conv)
  then obtain y ys where ys: "filter isl ress = y # ys" by (cases "filter isl ress") auto
  then have "y \<in> set (filter isl ress)" by simp
  then have "isl y" by simp
  with ys show ?thesis by (simp add: first_rejection_def)
qed

lemma snd_processRecords_Cons:
  "snd (processRecords w ((e, r) # rest)) = snd (processRecords (snd (processRecord e w r)) rest)"
  by (simp split: prod.splits)

lemma processRecords_terminal_kept:
  "terminal (status_at w k) \<Longrightarrow>
     orderItemsTable (snd (processRecords w ers)) k = orderItemsTable w k"
proof (induction ers arbitrary: w)
  case Nil
  then show ?case by simp
next
  case (Cons a ers)
  obtain e r where a: "a = (e, r)" by (cases a)
  let ?w1 = "snd (processRecord e w r)"
  have same: "orderItemsTable ?w1 k = orderItemsTable w k"
    using Cons.prems by (rule processRecord_terminal_kept)
  then have "terminal (status_at ?w1 k)" using Cons.prems by (simp add: status_at_def)
  then have "orderItemsTable (snd (processRecords ?w1 ers)) k = orderItemsTable ?w1 k"
    by (rule Cons.IH)
  with same a show ?case by (simp only: snd_processRecords_Cons)
qed

text \<open>A row whose itemId ends in 3 is never written by processRecord.\<close>

lemma processRecord_ends_in_3:
  assumes "ends_in CHR ''3'' (snd k)"
  shows "orderItemsTable (snd (processRecord e w r)) k = orderItemsTable w k"
proof (cases "body r")
  case None
  then show ?thesis by (simp add: processRecord_def)
next
  case (Some m)
  show ?thesis
  proof (cases "k = (msg_orderId m, msg_itemId m)")
    case True
    then have "shouldSimulateFailure (math_random e) (msg_itemId m)"
      using assms by (simp add: shouldSimulateFailure_3)
    with Some show ?thesis by (simp add: processRecord_work_fails)
  next
    case False
    with Some show ?thesis by (intro processRecord_other_key) auto
  qed
qed

lemma processRecords_ends_in_3:
  "ends_in CHR ''3'' (snd k) \<Longrightarrow>
     orderItemsTable (snd (processRecords w ers)) k = orderItemsTable w k"
proof (induction ers arbitrary: w)
  case Nil
  then show ?case by simp
next
  case (Cons a ers)
  obtain e r where a: "a = (e, r)" by (cases a)
  from Cons.prems have "orderItemsTable (snd (processRecord e w r)) k = orderItemsTable w k"
    by (rule processRecord_ends_in_3)
  moreover from Cons.prems
  have "orderItemsTable (snd (processRecords (snd (processRecord e w r)) ers)) k
          = orderItemsTable (snd (processRecord e w r)) k"
    by (rule Cons.IH)
  ultimately show ?case using a by (simp only: snd_processRecords_Cons)
qed

lemma handler_world: "snd (orderProcessor_handler w ers) = snd (processRecords w ers)"
  by (simp add: orderProcessor_handler_def split: prod.splits)

lemma handler_result:
  "fst (orderProcessor_handler w ers) = first_rejection (fst (processRecords w ers))"
  by (simp add: orderProcessor_handler_def split: prod.splits)

text \<open>
  C10. An item whose itemId ends in the character 3 always fails in OrderProcessor:
  \<open>shouldSimulateFailure\<close> is true whatever \<open>Math.random()\<close> returns, the unit of work
  \<open>processOrderItem\<close> throws, a delivery of a message for such an item whose stored
  status is not terminal is rejected, and no run of the OrderProcessor handler, on any
  batch of records in any state of the tables, changes the row of such an item. So
  OrderProcessor never marks it PROCESSED.
\<close>

theorem items_ending_in_3_always_fail:
  assumes "ends_in CHR ''3'' iid"
  shows "shouldSimulateFailure rnd iid
       \<and> (msg_itemId m = iid \<longrightarrow>
            fst (processOrderItem e w m) = Inl (SimulatedProcessingFailure iid))
       \<and> (body r = Some m \<and> msg_itemId m = iid
            \<and> \<not> terminal (status_at w (msg_orderId m, iid)) \<longrightarrow>
            isl (fst (processRecord e w r)))
       \<and> orderItemsTable (snd (orderProcessor_handler w ers)) (oid, iid)
           = orderItemsTable w (oid, iid)"
proof -
  have f: "\<And>x. shouldSimulateFailure x iid" using assms by (rule shouldSimulateFailure_3)
  have "msg_itemId m = iid \<longrightarrow>
          fst (processOrderItem e w m) = Inl (SimulatedProcessingFailure iid)"
    using f by (simp add: processOrderItem_def)
  moreover have "body r = Some m \<and> msg_itemId m = iid
            \<and> \<not> terminal (status_at w (msg_orderId m, iid)) \<longrightarrow>
            isl (fst (processRecord e w r))"
    using f processRecord_rejects [of r m e w] by auto
  moreover have "orderItemsTable (snd (orderProcessor_handler w ers)) (oid, iid)
           = orderItemsTable w (oid, iid)"
    using assms by (simp add: handler_world processRecords_ends_in_3)
  ultimately show ?thesis using f by blast
qed

theorem items_ending_in_3_always_fail_witness:
  "ends_in CHR ''3'' ''order-001-item-3''
   \<and> shouldSimulateFailure 0.9 ''order-001-item-3''
   \<and> isl (fst (processRecord (example_proc_env 0.9)
               (example_world ''order-001-item-3'' ''PENDING'')
               (example_record ''order-001-item-3'')))
   \<and> status_at (snd (orderProcessor_handler (example_world ''order-001-item-3'' ''PENDING'')
         [(example_proc_env 0.9, example_record ''order-001-item-3'')]))
        (''order-001'', ''order-001-item-3'') = Some ''PENDING''"
proof -
  let ?r = "example_record ''order-001-item-3''"
  let ?w = "example_world ''order-001-item-3'' ''PENDING''"
  let ?e = "example_proc_env 0.9"
  let ?m = "example_message ''order-001-item-3''"
  have h: "ends_in CHR ''3'' ''order-001-item-3''" by (simp add: ends_in_def)
  have b: "body ?r = Some ?m" by (simp add: example_record_def)
  have ids: "msg_orderId ?m = ''order-001''" "msg_itemId ?m = ''order-001-item-3''"
    by (simp_all add: example_message_def)
  have st: "status_at ?w (''order-001'', ''order-001-item-3'') = Some ''PENDING''"
    by (simp add: status_at_def example_world_def example_row_def)
  have nt: "\<not> terminal (status_at ?w (''order-001'', ''order-001-item-3''))"
    by (simp add: st terminal_def)
  from items_ending_in_3_always_fail [OF h, of "0.9" ?m ?e ?w ?r "[(?e, ?r)]" "''order-001''"]
    h b ids st nt
  show ?thesis by (simp add: status_at_def)
qed

text \<open>
  C3. A failure of the unit of work propagates. When a delivered message parses, its item's
  stored status is not PROCESSED or FAILED at the moment the record is processed, and the
  unit of work throws, then \<open>processRecord\<close> rejects (with the unit of work's own
  error when the lookup resolved), OrderItemsTable is left as it was (the status is still
  what it was, no processedAt is written), no \<open>UpdateCommand\<close> is issued, and the
  OrderProcessor handler rejects for the event holding the record, wherever in the event
  the record stands.
\<close>

theorem processing_failure_propagates:
  assumes "body r = Some m"
    and "w = snd (processRecords w0 before)"
    and "\<not> terminal (status_at w (msg_orderId m, msg_itemId m))"
    and "shouldSimulateFailure (math_random e) (msg_itemId m)"
  shows "isl (fst (processRecord e w r))
       \<and> (get_ok e \<longrightarrow>
            fst (processRecord e w r) = Inl (SimulatedProcessingFailure (msg_itemId m)))
       \<and> orderItemsTable (snd (processRecord e w r)) = orderItemsTable w
       \<and> new_effects w (snd (processRecord e w r))
           = (if get_ok e
              then [DbGet (msg_orderId m) (msg_itemId m), UnitOfWork (msg_itemId m)]
              else [DbGet (msg_orderId m) (msg_itemId m)])
       \<and> isl (fst (orderProcessor_handler w0 (before @ (e, r) # after)))"
proof -
  have rej: "isl (fst (processRecord e w r))"
    using assms(1,4,3) by (rule processRecord_rejects)
  have err: "get_ok e \<longrightarrow>
      fst (processRecord e w r) = Inl (SimulatedProcessingFailure (msg_itemId m))"
    using assms(1,3,4)
    by (simp add: processRecord_def Let_def processOrderItem_def has_status_status_at terminal_def)
  have tab: "orderItemsTable (snd (processRecord e w r)) = orderItemsTable w"
    using assms(1,4) by (rule processRecord_work_fails)
  have eff: "new_effects w (snd (processRecord e w r))
      = (if get_ok e
         then [DbGet (msg_orderId m) (msg_itemId m), UnitOfWork (msg_itemId m)]
         else [DbGet (msg_orderId m) (msg_itemId m)])"
    using assms(1,3,4)
    by (simp add: processRecord_def Let_def processOrderItem_def has_status_status_at
        terminal_def new_effects_def)
  have "fst (processRecord e w r) \<in> set (fst (processRecords w0 (before @ (e, r) # after)))"
    using assms(2) by (simp add: processRecords_append split: prod.splits)
  with rej have "isl (fst (orderProcessor_handler w0 (before @ (e, r) # after)))"
    unfolding handler_result by (intro first_rejection_isl) blast
  with rej err tab eff show ?thesis by blast
qed

theorem processing_failure_propagates_witness:
  "body (example_record ''order-001-item-1'') = Some (example_message ''order-001-item-1'')
   \<and> \<not> terminal (status_at (example_world ''order-001-item-1'' ''PENDING'')
                   (''order-001'', ''order-001-item-1''))
   \<and> shouldSimulateFailure (math_random (example_proc_env 0.25)) ''order-001-item-1''
   \<and> fst (processRecord (example_proc_env 0.25) (example_world ''order-001-item-1'' ''PENDING'')
            (example_record ''order-001-item-1''))
       = Inl (SimulatedProcessingFailure ''order-001-item-1'')
   \<and> status_at (snd (processRecord (example_proc_env 0.25)
                       (example_world ''order-001-item-1'' ''PENDING'')
                       (example_record ''order-001-item-1'')))
        (''order-001'', ''order-001-item-1'') = Some ''PENDING''
   \<and> isl (fst (orderProcessor_handler (example_world ''order-001-item-1'' ''PENDING'')
               [(example_proc_env 0.25, example_record ''order-001-item-1'')]))"
proof -
  let ?r = "example_record ''order-001-item-1''"
  let ?w = "example_world ''order-001-item-1'' ''PENDING''"
  let ?e = "example_proc_env 0.25"
  let ?m = "example_message ''order-001-item-1''"
  have b: "body ?r = Some ?m" by (simp add: example_record_def example_message_def)
  have ids: "msg_orderId ?m = ''order-001''" "msg_itemId ?m = ''order-001-item-1''"
    by (simp_all add: example_record_def example_message_def)
  have w: "?w = snd (processRecords ?w [])" by simp
  have st: "status_at ?w (''order-001'', ''order-001-item-1'') = Some ''PENDING''"
    by (simp add: status_at_def example_world_def example_row_def)
  have nt: "\<not> terminal (status_at ?w (msg_orderId ?m, msg_itemId ?m))"
    by (simp add: ids st terminal_def)
  have f: "shouldSimulateFailure (math_random ?e) (msg_itemId ?m)"
    by (simp add: ids shouldSimulateFailure_def slice_from_end_def example_proc_env_def)
  have g: "get_ok ?e" by (simp add: example_proc_env_def)
  from processing_failure_propagates [OF b w nt f, of "[]"] b ids st nt f g
  show ?thesis by (simp add: status_at_def)
qed

text \<open>
  C4 as stated fails: for an item that is PROCESSED, when the \<open>GetCommand\<close> throws the
  handler rejects, so the message is not acknowledged.
\<close>

theorem duplicate_delivery_lookup_fails:
  "body (example_record ''order-001-item-0'') = Some (example_message ''order-001-item-0'')
   \<and> terminal (status_at (example_world ''order-001-item-0'' ''PROCESSED'')
                 (''order-001'', ''order-001-item-0''))
   \<and> fst (orderProcessor_handler (example_world ''order-001-item-0'' ''PROCESSED'')
            [((example_proc_env 0.25)\<lparr>get_ok := False\<rparr>, example_record ''order-001-item-0'')])
       = Inl DynamoDBError"
  by (simp add: orderProcessor_handler_def first_rejection_def processRecord_def Let_def
      terminal_def status_at_def example_record_def example_message_def example_world_def
      example_row_def example_proc_env_def)

lemma processRecord_terminal:
  assumes "body r = Some m" "terminal (status_at w (msg_orderId m, msg_itemId m))"
  shows "processRecord e w r =
           (if get_ok e then Inr () else Inl DynamoDBError,
            log_effect (DbGet (msg_orderId m) (msg_itemId m)) w)"
  using assms by (auto simp: processRecord_def Let_def has_status_status_at terminal_def)

text \<open>
  C4, as amended. When a delivered message parses and the stored status of its item is
  PROCESSED or FAILED, processing it changes nothing, whatever the lookup does: both tables
  and the queue are unchanged, and the only call made to the outside is the
  \<open>GetCommand\<close>, so the unit of work is not run and no \<open>UpdateCommand\<close> is issued.
  When the lookup resolves, \<open>processRecord\<close> and the handler resolve and the message is
  acknowledged; when the lookup throws, they reject with the lookup's error.
\<close>

theorem duplicate_delivery_is_noop:
  assumes "body r = Some m"
    and "terminal (status_at w (msg_orderId m, msg_itemId m))"
  shows "orderItemsTable (snd (processRecord e w r)) = orderItemsTable w
       \<and> ordersTable (snd (processRecord e w r)) = ordersTable w
       \<and> queue (snd (processRecord e w r)) = queue w
       \<and> new_effects w (snd (processRecord e w r))
           = [DbGet (msg_orderId m) (msg_itemId m)]
       \<and> snd (orderProcessor_handler w [(e, r)])
           = log_effect (DbGet (msg_orderId m) (msg_itemId m)) w
       \<and> (get_ok e \<longrightarrow>
            fst (processRecord e w r) = Inr ()
            \<and> fst (orderProcessor_handler w [(e, r)]) = Inr ())
       \<and> (\<not> get_ok e \<longrightarrow>
            fst (processRecord e w r) = Inl DynamoDBError
            \<and> fst (orderProcessor_handler w [(e, r)]) = Inl DynamoDBError)"
proof -
  have "processRecord e w r =
           (if get_ok e then Inr () else Inl DynamoDBError,
            log_effect (DbGet (msg_orderId m) (msg_itemId m)) w)"
    using assms by (rule processRecord_terminal)
  then show ?thesis
    by (simp add: orderProcessor_handler_def first_rejection_def new_effects_def)
qed

theorem duplicate_delivery_is_noop_witness:
  "body (example_record ''order-001-item-0'') = Some (example_message ''order-001-item-0'')
   \<and> terminal (status_at (example_world ''order-001-item-0'' ''PROCESSED'')
                 (''order-001'', ''order-001-item-0''))
   \<and> get_ok (example_proc_env 0.25)
   \<and> orderProcessor_handler (example_world ''order-001-item-0'' ''PROCESSED'')
        [(example_proc_env 0.25, example_record ''order-001-item-0'')]
      = (Inr (), (example_world ''order-001-item-0'' ''PROCESSED'')
                   \<lparr>effects := [DbGet ''order-001'' ''order-001-item-0'']\<rparr>)
   \<and> \<not> get_ok ((example_proc_env 0.25)\<lparr>get_ok := False\<rparr>)
   \<and> orderProcessor_handler (example_world ''order-001-item-0'' ''PROCESSED'')
        [((example_proc_env 0.25)\<lparr>get_ok := False\<rparr>, example_record ''order-001-item-0'')]
      = (Inl DynamoDBError, (example_world ''order-001-item-0'' ''PROCESSED'')
                   \<lparr>effects := [DbGet ''order-001'' ''order-001-item-0'']\<rparr>)"
proof -
  let ?r = "example_record ''order-001-item-0''"
  let ?w = "example_world ''order-001-item-0'' ''PROCESSED''"
  let ?e = "example_proc_env 0.25"
  let ?f = "(example_proc_env 0.25)\<lparr>get_ok := False\<rparr>"
  let ?m = "example_message ''order-001-item-0''"
  have b: "body ?r = Some ?m" by (simp add: example_record_def)
  have ids: "msg_orderId ?m = ''order-001''" "msg_itemId ?m = ''order-001-item-0''"
    by (simp_all add: example_message_def)
  have g: "get_ok ?e" "\<not> get_ok ?f" by (simp_all add: example_proc_env_def)
  have t: "terminal (status_at ?w (msg_orderId ?m, msg_itemId ?m))"
    by (simp add: ids terminal_def status_at_def example_world_def example_row_def)
  have l: "log_effect (DbGet ''order-001'' ''order-001-item-0'') ?w
             = ?w\<lparr>effects := [DbGet ''order-001'' ''order-001-item-0'']\<rparr>"
    by (simp add: log_effect_def example_world_def)
  from duplicate_delivery_is_noop [OF b t, of ?e]
    duplicate_delivery_is_noop [OF b t, of ?f] b g t ids l
  show ?thesis by (simp add: prod_eq_iff)
qed

section \<open>Properties of DLQProcessor\<close>

lemma processDLQRecord_resolves: "fst (processDLQRecord e w r) = Inr ()"
  by (simp add: processDLQRecord_def split: option.splits prod.splits sum.splits)

lemma snd_processDLQRecords_Cons:
  "snd (processDLQRecords w ((e, r) # rest))
     = snd (processDLQRecords (snd (processDLQRecord e w r)) rest)"
  by (simp split: prod.splits)

lemma dlq_handler_world: "snd (dlqProcessor_handler w ers) = snd (processDLQRecords w ers)"
  by (simp add: dlqProcessor_handler_def split: prod.splits)

lemma processDLQRecord_write_fails:
  "\<not> dlq_update_ok e \<Longrightarrow> orderItemsTable (snd (processDLQRecord e w r)) = orderItemsTable w"
  by (simp add: processDLQRecord_def processFailedItem_def updateItemStatusToFailed_def Let_def
      split: option.splits)

lemma processDLQRecord_marks_failed:
  assumes "body r = Some m" "dlq_update_ok e"
  shows "orderItemsTable (snd (processDLQRecord e w r)) (msg_orderId m, msg_itemId m)
           = Some ((row_or_new w (msg_orderId m) (msg_itemId m))
                     \<lparr>itemStatus := Some ''FAILED'', failedAt := Some (dlq_now_iso e)\<rparr>)"
  using assms
  by (simp add: processDLQRecord_def processFailedItem_def updateItemStatusToFailed_def Let_def
      row_or_new_def)

text \<open>The status of a row after one dead-letter record: FAILED or what it was.\<close>

lemma processDLQRecord_status:
  "status_at (snd (processDLQRecord e w r)) k = Some ''FAILED''
     \<or> status_at (snd (processDLQRecord e w r)) k = status_at w k"
  by (simp add: processDLQRecord_def processFailedItem_def updateItemStatusToFailed_def Let_def
      status_at_def split: option.splits)

lemma processDLQRecords_status:
  "status_at (snd (processDLQRecords w ers)) k = Some ''FAILED''
     \<or> status_at (snd (processDLQRecords w ers)) k = status_at w k"
proof (induction ers arbitrary: w)
  case Nil
  then show ?case by simp
next
  case (Cons a ers)
  obtain e r where a: "a = (e, r)" by (cases a)
  let ?w1 = "snd (processDLQRecord e w r)"
  from Cons.IH [of ?w1] processDLQRecord_status [of e w r k] Cons.IH [of w]
  show ?case unfolding a snd_processDLQRecords_Cons
    by auto
qed

lemma marked_failed_mono: "marked_failed w k ts \<Longrightarrow> ts \<subseteq> ts' \<Longrightarrow> marked_failed w k ts'"
  by (auto simp: marked_failed_def split: option.splits)

lemma processDLQRecord_keeps_marked:
  "marked_failed w k ts \<Longrightarrow>
   marked_failed (snd (processDLQRecord e w r)) k (insert (dlq_now_iso e) ts)"
  by (auto simp: marked_failed_def processDLQRecord_def processFailedItem_def
      updateItemStatusToFailed_def Let_def row_or_new_def split: option.splits)

lemma processDLQRecord_marks:
  "body r = Some m \<Longrightarrow> dlq_update_ok e \<Longrightarrow>
   marked_failed (snd (processDLQRecord e w r)) (msg_orderId m, msg_itemId m) {dlq_now_iso e}"
  by (simp add: marked_failed_def processDLQRecord_marks_failed)

lemma processDLQRecords_keep_marked:
  "marked_failed w k ts \<Longrightarrow>
   marked_failed (snd (processDLQRecords w ers)) k (ts \<union> dlq_now_iso ` fst ` set ers)"
proof (induction ers arbitrary: w ts)
  case Nil
  then show ?case by simp
next
  case (Cons a ers)
  obtain e r where a: "a = (e, r)" by (cases a)
  from Cons.prems
  have "marked_failed (snd (processDLQRecord e w r)) k (insert (dlq_now_iso e) ts)"
    by (rule processDLQRecord_keeps_marked)
  then have "marked_failed (snd (processDLQRecords (snd (processDLQRecord e w r)) ers)) k
               (insert (dlq_now_iso e) ts \<union> dlq_now_iso ` fst ` set ers)"
    by (rule Cons.IH)
  then show ?case unfolding a snd_processDLQRecords_Cons by simp
qed

lemma processDLQRecords_mark:
  "(e, r) \<in> set ers \<Longrightarrow> body r = Some m \<Longrightarrow> dlq_update_ok e \<Longrightarrow>
   marked_failed (snd (processDLQRecords w ers)) (msg_orderId m, msg_itemId m)
     (dlq_now_iso ` fst ` set ers)"
proof (induction ers arbitrary: w)
  case Nil
  then show ?case by simp
next
  case (Cons a ers)
  obtain e' r' where a: "a = (e', r')" by (cases a)
  let ?k = "(msg_orderId m, msg_itemId m)"
  let ?w1 = "snd (processDLQRecord e' w r')"
  show ?case
  proof (cases "(e, r) = a")
    case True
    with a Cons.prems have "marked_failed ?w1 ?k {dlq_now_iso e'}"
      by (simp add: processDLQRecord_marks)
    then have "marked_failed (snd (processDLQRecords ?w1 ers)) ?k
                 ({dlq_now_iso e'} \<union> dlq_now_iso ` fst ` set ers)"
      by (rule processDLQRecords_keep_marked)
    then show ?thesis unfolding a snd_processDLQRecords_Cons by simp
  next
    case False
    with Cons.prems have "(e, r) \<in> set ers" by simp
    then have "marked_failed (snd (processDLQRecords ?w1 ers)) ?k (dlq_now_iso ` fst ` set ers)"
      using Cons.prems(2,3) by (rule Cons.IH)
    then have "marked_failed (snd (processDLQRecords ?w1 ers)) ?k
                 (dlq_now_iso ` fst ` set (a # ers))"
      by (rule marked_failed_mono) auto
    then show ?thesis unfolding a snd_processDLQRecords_Cons .
  qed
qed

lemma processDLQRecords_writes_fail:
  "\<forall>(e, r) \<in> set ers. \<not> dlq_update_ok e \<Longrightarrow>
   orderItemsTable (snd (processDLQRecords w ers)) = orderItemsTable w"
proof (induction ers arbitrary: w)
  case Nil
  then show ?case by simp
next
  case (Cons a ers)
  obtain e r where a: "a = (e, r)" by (cases a)
  from Cons.prems a have "\<not> dlq_update_ok e" by simp
  then have "orderItemsTable (snd (processDLQRecord e w r)) = orderItemsTable w"
    by (rule processDLQRecord_write_fails)
  moreover from Cons.prems
  have "orderItemsTable (snd (processDLQRecords (snd (processDLQRecord e w r)) ers))
          = orderItemsTable (snd (processDLQRecord e w r))"
    by (intro Cons.IH) simp
  ultimately show ?case unfolding a snd_processDLQRecords_Cons by simp
qed

text \<open>
  C5. The Dead-Letter Handler never propagates a failure. The DLQProcessor handler
  resolves for every batch, whatever the outcome of each \<open>UpdateCommand\<close> and of
  \<open>JSON.parse\<close>: every message is acknowledged. When every write of the batch throws,
  the handler leaves OrderItemsTable as it was. When a record of the batch parses and its
  write resolves, then after the handler the item has a row with itemStatus FAILED and a
  failedAt that is the time of one of the batch's writes; for an event of one record the
  row is the old row (or a new one holding the key) with itemStatus FAILED and failedAt the
  time of that write. The same holds record by record for \<open>processDLQRecord\<close>.
\<close>

theorem dlq_handler_never_rejects:
  "fst (dlqProcessor_handler w ers) = Inr ()
   \<and> ((\<forall>(e, r) \<in> set ers. \<not> dlq_update_ok e) \<longrightarrow>
        orderItemsTable (snd (dlqProcessor_handler w ers)) = orderItemsTable w)
   \<and> ((e, r) \<in> set ers \<and> body r = Some m \<and> dlq_update_ok e \<longrightarrow>
        marked_failed (snd (dlqProcessor_handler w ers)) (msg_orderId m, msg_itemId m)
          (dlq_now_iso ` fst ` set ers))
   \<and> (body r = Some m \<and> dlq_update_ok e \<longrightarrow>
        orderItemsTable (snd (dlqProcessor_handler w [(e, r)])) (msg_orderId m, msg_itemId m)
          = Some ((row_or_new w (msg_orderId m) (msg_itemId m))
                    \<lparr>itemStatus := Some ''FAILED'', failedAt := Some (dlq_now_iso e)\<rparr>))
   \<and> fst (processDLQRecord e w r) = Inr ()
   \<and> (\<not> dlq_update_ok e \<longrightarrow>
        orderItemsTable (snd (processDLQRecord e w r)) = orderItemsTable w)
   \<and> (body r = Some m \<and> dlq_update_ok e \<longrightarrow>
        (\<exists>row. orderItemsTable (snd (processDLQRecord e w r)) (msg_orderId m, msg_itemId m)
                  = Some row
              \<and> itemStatus row = Some ''FAILED'' \<and> failedAt row = Some (dlq_now_iso e)))"
proof -
  have h: "fst (dlqProcessor_handler w ers) = Inr ()"
    by (simp add: dlqProcessor_handler_def split: prod.splits)
  have u: "(\<forall>(e, r) \<in> set ers. \<not> dlq_update_ok e) \<longrightarrow>
        orderItemsTable (snd (dlqProcessor_handler w ers)) = orderItemsTable w"
    unfolding dlq_handler_world by (intro impI processDLQRecords_writes_fail)
  have b: "(e, r) \<in> set ers \<and> body r = Some m \<and> dlq_update_ok e \<longrightarrow>
        marked_failed (snd (dlqProcessor_handler w ers)) (msg_orderId m, msg_itemId m)
          (dlq_now_iso ` fst ` set ers)"
    unfolding dlq_handler_world by (auto intro: processDLQRecords_mark)
  have s: "body r = Some m \<and> dlq_update_ok e \<longrightarrow>
        orderItemsTable (snd (dlqProcessor_handler w [(e, r)])) (msg_orderId m, msg_itemId m)
          = Some ((row_or_new w (msg_orderId m) (msg_itemId m))
                    \<lparr>itemStatus := Some ''FAILED'', failedAt := Some (dlq_now_iso e)\<rparr>)"
  proof (intro impI, elim conjE)
    assume p: "body r = Some m" and o: "dlq_update_ok e"
    have "snd (dlqProcessor_handler w [(e, r)]) = snd (processDLQRecord e w r)"
      by (simp add: dlq_handler_world split: prod.splits)
    then show "orderItemsTable (snd (dlqProcessor_handler w [(e, r)]))
                 (msg_orderId m, msg_itemId m)
          = Some ((row_or_new w (msg_orderId m) (msg_itemId m))
                    \<lparr>itemStatus := Some ''FAILED'', failedAt := Some (dlq_now_iso e)\<rparr>)"
      using processDLQRecord_marks_failed [OF p o, of w] by simp
  qed
  have r: "body r = Some m \<and> dlq_update_ok e \<longrightarrow>
        (\<exists>row. orderItemsTable (snd (processDLQRecord e w r)) (msg_orderId m, msg_itemId m)
                  = Some row
              \<and> itemStatus row = Some ''FAILED'' \<and> failedAt row = Some (dlq_now_iso e))"
    by (simp add: processDLQRecord_marks_failed)
  from h u b s r processDLQRecord_resolves [of e w r] processDLQRecord_write_fails [of e w r]
  show ?thesis by (intro conjI) blast+
qed

theorem dlq_handler_never_rejects_witness:
  "fst (dlqProcessor_handler (example_world ''order-001-item-3'' ''PENDING'')
          [(example_dlq_env False, example_record ''order-001-item-3'')]) = Inr ()
   \<and> \<not> dlq_update_ok (example_dlq_env False)
   \<and> orderItemsTable (snd (dlqProcessor_handler (example_world ''order-001-item-3'' ''PENDING'')
                            [(example_dlq_env False, example_record ''order-001-item-3'')]))
       = orderItemsTable (example_world ''order-001-item-3'' ''PENDING'')
   \<and> (example_dlq_env True, example_record ''order-001-item-3'')
       \<in> set [(example_dlq_env False, example_record ''order-001-item-0''),
               (example_dlq_env True, example_record ''order-001-item-3'')]
   \<and> body (example_record ''order-001-item-3'') = Some (example_message ''order-001-item-3'')
   \<and> dlq_update_ok (example_dlq_env True)
   \<and> fst (dlqProcessor_handler (example_world ''order-001-item-3'' ''PENDING'')
            [(example_dlq_env False, example_record ''order-001-item-0''),
             (example_dlq_env True, example_record ''order-001-item-3'')]) = Inr ()
   \<and> marked_failed (snd (dlqProcessor_handler (example_world ''order-001-item-3'' ''PENDING'')
                          [(example_dlq_env False, example_record ''order-001-item-0''),
                           (example_dlq_env True, example_record ''order-001-item-3'')]))
        (''order-001'', ''order-001-item-3'') {''2025-01-01T00:02:00.000Z''}
   \<and> orderItemsTable (snd (dlqProcessor_handler (example_world ''order-001-item-3'' ''PENDING'')
                            [(example_dlq_env True, example_record ''order-001-item-3'')]))
        (''order-001'', ''order-001-item-3'')
       = Some ((example_row ''order-001-item-3'' ''FAILED'')
                 \<lparr>failedAt := Some ''2025-01-01T00:02:00.000Z''\<rparr>)"
proof -
  let ?r = "example_record ''order-001-item-3''"
  let ?q = "example_record ''order-001-item-0''"
  let ?w = "example_world ''order-001-item-3'' ''PENDING''"
  let ?m = "example_message ''order-001-item-3''"
  let ?F = "example_dlq_env False"
  let ?T = "example_dlq_env True"
  have b: "body ?r = Some ?m" by (simp add: example_record_def)
  have ids: "msg_orderId ?m = ''order-001''" "msg_itemId ?m = ''order-001-item-3''"
    by (simp_all add: example_message_def)
  have e: "\<not> dlq_update_ok ?F" "dlq_update_ok ?T"
    "dlq_now_iso ?T = ''2025-01-01T00:02:00.000Z''"
    "dlq_now_iso ?F = ''2025-01-01T00:02:00.000Z''"
    by (simp_all add: example_dlq_env_def)
  have old: "(row_or_new ?w ''order-001'' ''order-001-item-3'')
               \<lparr>itemStatus := Some ''FAILED'', failedAt := Some ''2025-01-01T00:02:00.000Z''\<rparr>
             = (example_row ''order-001-item-3'' ''FAILED'')
                 \<lparr>failedAt := Some ''2025-01-01T00:02:00.000Z''\<rparr>"
    by (simp add: row_or_new_def example_world_def example_row_def)
  have mem: "(?T, ?r) \<in> set [(?F, ?q), (?T, ?r)]" by simp
  have img: "dlq_now_iso ` fst ` set [(?F, ?q), (?T, ?r)] = {''2025-01-01T00:02:00.000Z''}"
    by (simp add: e)
  have all_fail: "\<forall>(e, r) \<in> set [(?F, ?r)]. \<not> dlq_update_ok e" by (simp add: e)
  note one = dlq_handler_never_rejects [of ?w "[(?F, ?r)]" ?T ?r ?m]
  note two = dlq_handler_never_rejects [of ?w "[(?F, ?q), (?T, ?r)]" ?T ?r ?m]
  from one have c1: "fst (dlqProcessor_handler ?w [(?F, ?r)]) = Inr ()" by blast
  from one all_fail
  have c2: "orderItemsTable (snd (dlqProcessor_handler ?w [(?F, ?r)])) = orderItemsTable ?w"
    by blast
  from two have c3: "fst (dlqProcessor_handler ?w [(?F, ?q), (?T, ?r)]) = Inr ()" by blast
  from two mem b e(2)
  have "marked_failed (snd (dlqProcessor_handler ?w [(?F, ?q), (?T, ?r)]))
          (msg_orderId ?m, msg_itemId ?m) (dlq_now_iso ` fst ` set [(?F, ?q), (?T, ?r)])"
    by blast
  then have c4: "marked_failed (snd (dlqProcessor_handler ?w [(?F, ?q), (?T, ?r)]))
          (''order-001'', ''order-001-item-3'') {''2025-01-01T00:02:00.000Z''}"
    unfolding img ids .
  from one b e(2)
  have "orderItemsTable (snd (dlqProcessor_handler ?w [(?T, ?r)])) (msg_orderId ?m, msg_itemId ?m)
          = Some ((row_or_new ?w (msg_orderId ?m) (msg_itemId ?m))
                    \<lparr>itemStatus := Some ''FAILED'', failedAt := Some (dlq_now_iso ?T)\<rparr>)"
    by blast
  then have c5: "orderItemsTable (snd (dlqProcessor_handler ?w [(?T, ?r)]))
                   (''order-001'', ''order-001-item-3'')
          = Some ((example_row ''order-001-item-3'' ''FAILED'')
                 \<lparr>failedAt := Some ''2025-01-01T00:02:00.000Z''\<rparr>)"
    unfolding ids e(3) old .
  from c1 e(1) c2 mem b e(2) c3 c4 c5 show ?thesis by (intro conjI)
qed

text \<open>
  C1, as amended. Once an item's status is PROCESSED or FAILED, no run of the
  OrderProcessor handler changes it, whatever the batch. Once it is FAILED, no run of the
  DLQProcessor handler changes it. The DLQProcessor handler does not read the row before it
  writes: a row that is PROCESSED is PROCESSED or FAILED afterwards, and a dead-letter
  message whose write resolves leaves its item FAILED whatever the status was.
\<close>

theorem terminal_status_kept:
  "(terminal (status_at w k) \<longrightarrow>
      status_at (snd (orderProcessor_handler w ers)) k = status_at w k)
   \<and> (status_at w k = Some ''FAILED'' \<longrightarrow>
        status_at (snd (dlqProcessor_handler w drs)) k = Some ''FAILED'')
   \<and> (status_at w k = Some ''PROCESSED'' \<longrightarrow>
        status_at (snd (dlqProcessor_handler w drs)) k = Some ''PROCESSED''
        \<or> status_at (snd (dlqProcessor_handler w drs)) k = Some ''FAILED'')
   \<and> (body r = Some m \<and> dlq_update_ok e \<longrightarrow>
        status_at (snd (dlqProcessor_handler w [(e, r)])) (msg_orderId m, msg_itemId m)
          = Some ''FAILED'')"
proof -
  have a: "terminal (status_at w k) \<longrightarrow>
      status_at (snd (orderProcessor_handler w ers)) k = status_at w k"
    by (simp add: handler_world status_at_def [of "snd (processRecords w ers)"]
        processRecords_terminal_kept) (simp add: status_at_def)
  have d: "status_at (snd (dlqProcessor_handler w drs)) k = Some ''FAILED''
     \<or> status_at (snd (dlqProcessor_handler w drs)) k = status_at w k"
    unfolding dlq_handler_world by (rule processDLQRecords_status)
  have m: "body r = Some m \<and> dlq_update_ok e \<longrightarrow>
        status_at (snd (dlqProcessor_handler w [(e, r)])) (msg_orderId m, msg_itemId m)
          = Some ''FAILED''"
  proof (intro impI, elim conjE)
    assume b: "body r = Some m" and u: "dlq_update_ok e"
    have "snd (dlqProcessor_handler w [(e, r)]) = snd (processDLQRecord e w r)"
      by (simp add: dlq_handler_world split: prod.splits)
    then show "status_at (snd (dlqProcessor_handler w [(e, r)])) (msg_orderId m, msg_itemId m)
          = Some ''FAILED''"
      using processDLQRecord_marks_failed [OF b u, of w] by (simp add: status_at_def)
  qed
  from a d m show ?thesis by auto
qed

theorem terminal_status_kept_witness:
  "terminal (status_at (example_world ''order-001-item-0'' ''PROCESSED'')
               (''order-001'', ''order-001-item-0''))
   \<and> status_at (snd (orderProcessor_handler (example_world ''order-001-item-0'' ''PROCESSED'')
                  [(example_proc_env 0.25, example_record ''order-001-item-0'')]))
        (''order-001'', ''order-001-item-0'') = Some ''PROCESSED''
   \<and> status_at (snd (dlqProcessor_handler (example_world ''order-001-item-0'' ''PROCESSED'')
                  [(example_dlq_env False, example_record ''order-001-item-0'')]))
        (''order-001'', ''order-001-item-0'') = Some ''PROCESSED''
   \<and> status_at (example_world ''order-001-item-3'' ''FAILED'')
        (''order-001'', ''order-001-item-3'') = Some ''FAILED''
   \<and> status_at (snd (dlqProcessor_handler (example_world ''order-001-item-3'' ''FAILED'')
                  [(example_dlq_env True, example_record ''order-001-item-3'')]))
        (''order-001'', ''order-001-item-3'') = Some ''FAILED''
   \<and> body (example_record ''order-001-item-3'') = Some (example_message ''order-001-item-3'')
   \<and> dlq_update_ok (example_dlq_env True)
   \<and> status_at (snd (dlqProcessor_handler (example_world ''order-001-item-3'' ''PENDING'')
                  [(example_dlq_env True, example_record ''order-001-item-3'')]))
        (''order-001'', ''order-001-item-3'') = Some ''FAILED''"
proof -
  let ?k0 = "(''order-001'', ''order-001-item-0'')"
  let ?k3 = "(''order-001'', ''order-001-item-3'')"
  let ?m = "example_message ''order-001-item-3''"
  have p: "status_at (example_world ''order-001-item-0'' ''PROCESSED'') ?k0 = Some ''PROCESSED''"
    by (simp add: status_at_def example_world_def example_row_def)
  have f: "status_at (example_world ''order-001-item-3'' ''FAILED'') ?k3 = Some ''FAILED''"
    by (simp add: status_at_def example_world_def example_row_def)
  have b: "body (example_record ''order-001-item-3'') = Some ?m"
    by (simp add: example_record_def)
  have ids: "msg_orderId ?m = ''order-001''" "msg_itemId ?m = ''order-001-item-3''"
    by (simp_all add: example_message_def)
  have e: "dlq_update_ok (example_dlq_env True)" by (simp add: example_dlq_env_def)
  have q: "status_at (snd (dlqProcessor_handler (example_world ''order-001-item-0'' ''PROCESSED'')
                  [(example_dlq_env False, example_record ''order-001-item-0'')])) ?k0
             = Some ''PROCESSED''"
    by (simp add: status_at_def dlqProcessor_handler_def processDLQRecord_def
        processFailedItem_def updateItemStatusToFailed_def Let_def example_world_def
        example_row_def example_record_def example_message_def example_dlq_env_def)
  from terminal_status_kept [of "example_world ''order-001-item-0'' ''PROCESSED''" ?k0
        "[(example_proc_env 0.25, example_record ''order-001-item-0'')]"]
    terminal_status_kept [of "example_world ''order-001-item-3'' ''FAILED''" ?k3 _
        "[(example_dlq_env True, example_record ''order-001-item-3'')]"]
    terminal_status_kept [of "example_world ''order-001-item-3'' ''PENDING''" _ _ _
        "example_record ''order-001-item-3''" ?m "example_dlq_env True"]
    p q f b ids e
  show ?thesis by (simp add: terminal_def)
qed

text \<open>
  C1 as stated fails: a dead-letter message for an item that is PROCESSED, with the write
  resolving, leaves the item FAILED.
\<close>

theorem dlq_overwrites_processed:
  "terminal (status_at (example_world ''order-001-item-0'' ''PROCESSED'')
               (''order-001'', ''order-001-item-0''))
   \<and> status_at (example_world ''order-001-item-0'' ''PROCESSED'')
        (''order-001'', ''order-001-item-0'') = Some ''PROCESSED''
   \<and> status_at (snd (dlqProcessor_handler (example_world ''order-001-item-0'' ''PROCESSED'')
                  [(example_dlq_env True, example_record ''order-001-item-0'')]))
        (''order-001'', ''order-001-item-0'') = Some ''FAILED''"
  by (simp add: terminal_def status_at_def dlqProcessor_handler_def processDLQRecord_def
      processFailedItem_def updateItemStatusToFailed_def Let_def row_or_new_def
      example_world_def example_row_def example_record_def example_message_def
      example_dlq_env_def)

section \<open>Properties of OrderManager\<close>

lemma digit_char_inj: "a < 10 \<Longrightarrow> b < 10 \<Longrightarrow> digit_char a = digit_char b \<Longrightarrow> a = b"
proof -
  assume a: "a < 10" and b: "b < 10" and eq: "digit_char a = digit_char b"
  have d: "distinct ''0123456789''" by simp
  have l: "length ''0123456789'' = 10" by simp
  from eq have "''0123456789'' ! a = ''0123456789'' ! b" by (simp only: digit_char_def)
  with d a b l show "a = b" by (simp only: nth_eq_iff_index_eq)
qed

lemma digit_char_is_digit: "d < 10 \<Longrightarrow> is_digit (digit_char d)"
proof -
  assume "d < 10"
  then have "d < length ''0123456789''" by simp
  then have "''0123456789'' ! d \<in> set ''0123456789''" by (rule nth_mem)
  then show ?thesis by (simp only: is_digit_def digit_char_def)
qed

lemma string_of_nat_nonempty: "string_of_nat n \<noteq> []"
  by (subst string_of_nat.simps) simp

lemma string_of_nat_digits: "\<forall>c \<in> set (string_of_nat n). is_digit c"
proof (induction n rule: string_of_nat.induct)
  case (1 n)
  show ?case
  proof (cases "n < 10")
    case True
    then show ?thesis by (subst string_of_nat.simps) (simp add: digit_char_is_digit)
  next
    case False
    have "n mod 10 < 10" by simp
    then have "is_digit (digit_char (n mod 10))" by (rule digit_char_is_digit)
    with False 1 show ?thesis by (subst string_of_nat.simps) simp
  qed
qed

lemma string_of_nat_inj: "string_of_nat n = string_of_nat m \<Longrightarrow> n = m"
proof (induction n arbitrary: m rule: string_of_nat.induct)
  case (1 n)
  show ?case
  proof (cases "n < 10")
    case n: True
    show ?thesis
    proof (cases "m < 10")
      case True
      with n 1(2) have "digit_char n = digit_char m"
        by (simp add: string_of_nat.simps [of n] string_of_nat.simps [of m])
      with n True show ?thesis by (rule digit_char_inj)
    next
      case False
      with n 1(2) have "string_of_nat (m div 10) = []"
        by (simp add: string_of_nat.simps [of n] string_of_nat.simps [of m])
      then show ?thesis by (simp add: string_of_nat_nonempty)
    qed
  next
    case n: False
    show ?thesis
    proof (cases "m < 10")
      case True
      with n 1(2) have "string_of_nat (n div 10) = []"
        by (simp add: string_of_nat.simps [of n] string_of_nat.simps [of m])
      then show ?thesis by (simp add: string_of_nat_nonempty)
    next
      case False
      with n 1(2) have eq: "string_of_nat (n div 10) = string_of_nat (m div 10)"
        and d: "digit_char (n mod 10) = digit_char (m mod 10)"
        by (simp_all add: string_of_nat.simps [of n] string_of_nat.simps [of m])
      from n eq have "n div 10 = m div 10" by (rule 1(1))
      moreover have "n mod 10 = m mod 10"
        by (rule digit_char_inj [OF _ _ d]) simp_all
      ultimately show ?thesis by (metis div_mult_mod_eq)
    qed
  qed
qed

lemma make_itemId_inj: "make_itemId oid i = make_itemId oid j \<Longrightarrow> i = j"
  by (simp add: make_itemId_def string_of_nat_inj)

lemma batch_put_other: "k \<notin> row_key ` set rs \<Longrightarrow> batch_put t rs k = t k"
  by (induction rs arbitrary: t) (auto simp: row_key_def)

lemma batch_put_nth:
  "distinct (map row_key rs) \<Longrightarrow> i < length rs \<Longrightarrow> batch_put t rs (row_key (rs ! i)) = Some (rs ! i)"
proof (induction rs arbitrary: t i)
  case Nil
  then show ?case by simp
next
  case (Cons r rs)
  show ?case
  proof (cases i)
    case 0
    from Cons.prems(1) have "row_key r \<notin> row_key ` set rs" by simp
    then have "batch_put (t(row_key r \<mapsto> r)) rs (row_key r) = (t(row_key r \<mapsto> r)) (row_key r)"
      by (rule batch_put_other)
    with 0 show ?thesis by (simp add: row_key_def)
  next
    case (Suc j)
    with Cons.prems have "distinct (map row_key rs)" "j < length rs" by simp_all
    then have "batch_put (t(row_key r \<mapsto> r)) rs (row_key (rs ! j)) = Some (rs ! j)"
      by (rule Cons.IH)
    with Suc show ?thesis by (simp add: row_key_def)
  qed
qed

lemma length_make_orderItemRecords [simp]:
  "length (make_orderItemRecords ts oid items) = length items"
  by (simp add: make_orderItemRecords_def)

lemma nth_make_orderItemRecords:
  "k < length items \<Longrightarrow>
   make_orderItemRecords ts oid items ! k =
     \<lparr>row_orderId = oid, row_itemId = make_itemId oid k,
      row_itemDetail = Some (itemDetail (items ! k)), row_quantity = Some (quantity (items ! k)),
      row_price = Some (price (items ! k)), itemStatus = Some ''PENDING'',
      row_timestamp = Some ts, processedAt = None, failedAt = None\<rparr>"
  by (simp add: make_orderItemRecords_def nth_enumerate_eq)

lemma row_key_make_orderItemRecords:
  "map row_key (make_orderItemRecords ts oid items)
     = map (\<lambda>k. (oid, make_itemId oid k)) [0..<length items]"
  by (rule nth_equalityI) (simp_all add: nth_make_orderItemRecords row_key_def)

lemma distinct_make_orderItemRecords:
  "distinct (map row_key (make_orderItemRecords ts oid items))"
  unfolding row_key_make_orderItemRecords
  by (rule distinct_map [THEN iffD2]) (auto intro!: inj_onI dest: make_itemId_inj)

lemma batch_put_make_orderItemRecords:
  assumes "k < length items"
  shows "batch_put t (make_orderItemRecords ts oid items) (oid, make_itemId oid k)
           = Some (make_orderItemRecords ts oid items ! k)"
proof -
  let ?rs = "make_orderItemRecords ts oid items"
  from assms have "row_key (?rs ! k) = (oid, make_itemId oid k)"
    by (simp add: nth_make_orderItemRecords row_key_def)
  moreover from assms have "batch_put t ?rs (row_key (?rs ! k)) = Some (?rs ! k)"
    by (intro batch_put_nth distinct_make_orderItemRecords) simp
  ultimately show ?thesis by simp
qed

lemma sqs_send_all_tables [simp]:
  "orderItemsTable (sqs_send_all e w ics) = orderItemsTable w"
  "ordersTable (sqs_send_all e w ics) = ordersTable w"
  by (induction e w ics rule: sqs_send_all.induct) (simp_all add: Let_def)

lemma sqs_send_all_queue:
  "queue (sqs_send_all e w ics) = queue w @ map snd (filter (\<lambda>(i, c). send_ok e i) ics)"
  by (induction e w ics rule: sqs_send_all.induct) (simp_all add: Let_def)

lemma sqs_send_all_effects:
  "effects (sqs_send_all e w ics)
     = effects w @ map (\<lambda>(i, c). SqsSend (MessageDeduplicationId c)) ics"
  by (induction e w ics rule: sqs_send_all.induct) (simp_all add: Let_def)

lemma filter_enumerate_all:
  "list_all P [n..<n + length cs] \<Longrightarrow> filter (\<lambda>(i, c). P i) (enumerate n cs) = enumerate n cs"
  by (auto simp: filter_id_conv in_set_enumerate_eq list_all_iff)

lemma sqs_send_all_queue_ok:
  assumes "list_all (send_ok e) [0..<length cs]"
  shows "queue (sqs_send_all e w (enumerate 0 cs)) = queue w @ cs"
  using assms filter_enumerate_all [of "send_ok e" 0 cs] by (simp add: sqs_send_all_queue)

lemma length_make_commands [simp]: "length (make_commands e rs) = length rs"
  by (simp add: make_commands_def)

lemma nth_make_commands:
  "i < length rs \<Longrightarrow>
   make_commands e rs ! i =
     \<lparr>MessageBody = rs ! i, MessageGroupId = row_orderId (rs ! i),
      MessageDeduplicationId = make_dedupId (row_itemId (rs ! i)) (date_now e i) i\<rparr>"
  by (simp add: make_commands_def nth_enumerate_eq)

lemma addOrderToDatabase_put_fails:
  "\<not> put_ok e \<Longrightarrow>
   addOrderToDatabase e w oid uid items ostatus = (Inl DynamoDBError, log_effect (DbPut oid) w)"
  by (simp add: addOrderToDatabase_def Let_def)

lemma addOrderToDatabase_batch_fails:
  "put_ok e \<Longrightarrow> \<not> batch_ok e \<Longrightarrow>
   addOrderToDatabase e w oid uid items ostatus =
     (Inl DynamoDBError,
      w\<lparr>ordersTable := (ordersTable w)((oid, mgr_now_iso e) \<mapsto>
                           make_orderRecord (mgr_now_iso e) oid uid ostatus items),
        effects := effects w @ [DbPut oid, DbBatchWrite (length items)]\<rparr>)"
  by (simp add: addOrderToDatabase_def Let_def log_effect_def)

lemma addOrderToDatabase_ok:
  "put_ok e \<Longrightarrow> batch_ok e \<Longrightarrow>
   addOrderToDatabase e w oid uid items ostatus =
     (Inr (make_orderItemRecords (mgr_now_iso e) oid items),
      w\<lparr>ordersTable := (ordersTable w)((oid, mgr_now_iso e) \<mapsto>
                           make_orderRecord (mgr_now_iso e) oid uid ostatus items),
        orderItemsTable := batch_put (orderItemsTable w)
                             (make_orderItemRecords (mgr_now_iso e) oid items),
        effects := effects w @ [DbPut oid, DbBatchWrite (length items)]\<rparr>)"
  by (simp add: addOrderToDatabase_def Let_def log_effect_def)

lemma handler_persistence_fails:
  "\<not> (put_ok e \<and> batch_ok e) \<Longrightarrow>
   orderManager_handler e w event = (Inl DynamoDBError, persisted e w event)"
  by (cases "put_ok e")
     (simp_all add: orderManager_handler_def persisted_def addOrderToDatabase_put_fails
        addOrderToDatabase_batch_fails)

lemma handler_persistence_ok:
  assumes "put_ok e" "batch_ok e"
  shows "orderManager_handler e w event =
     (if list_all (send_ok e) [0..<length (orderItems event)]
      then Inr success_response else Inl SqsError,
      sqs_send_all e (persisted e w event)
        (enumerate 0 (make_commands e
           (make_orderItemRecords (mgr_now_iso e) (orderId event) (orderItems event)))))"
  using assms
  by (simp add: orderManager_handler_def persisted_def addOrderToDatabase_ok Let_def)

lemma persisted_ok_orders:
  "put_ok e \<Longrightarrow> batch_ok e \<Longrightarrow>
   ordersTable (persisted e w event) (orderId event, mgr_now_iso e)
     = Some (make_orderRecord (mgr_now_iso e) (orderId event) (userId event)
               (orderStatus event) (orderItems event))"
  by (simp add: persisted_def addOrderToDatabase_ok)

lemma persisted_ok_items:
  "put_ok e \<Longrightarrow> batch_ok e \<Longrightarrow> k < length (orderItems event) \<Longrightarrow>
   orderItemsTable (persisted e w event) (orderId event, make_itemId (orderId event) k)
     = Some (make_orderItemRecords (mgr_now_iso e) (orderId event) (orderItems event) ! k)"
  by (simp add: persisted_def addOrderToDatabase_ok batch_put_make_orderItemRecords)

lemma handler_tables:
  "orderItemsTable (snd (orderManager_handler e w event)) = orderItemsTable (persisted e w event)"
  "ordersTable (snd (orderManager_handler e w event)) = ordersTable (persisted e w event)"
  by (cases "put_ok e \<and> batch_ok e";
      simp add: handler_persistence_fails handler_persistence_ok)+

text \<open>
  C8. The records ingestion persists. When the \<open>PutCommand\<close> and the
  \<open>BatchWriteCommand\<close> resolve, OrdersTable holds, under the order's id and the
  ingestion timestamp, a record whose totalItems is the number of items and whose
  totalValue is the sum, taken left to right from 0, of price times quantity; and for every
  \<open>k\<close> below the number of items OrderItemsTable holds, under the itemId made of the
  orderId, the text \<open>-item-\<close> and the decimal digits of \<open>k\<close>, a row with that itemId,
  status PENDING, the order record's timestamp and the detail, quantity and price of the
  \<open>k\<close>-th item. The itemIds do not depend on the time or on the state of the tables: any
  two successful runs of \<open>addOrderToDatabase\<close> on the same order give the same list of
  itemIds.
\<close>

theorem ingestion_postcondition:
  assumes "put_ok e" and "batch_ok e"
  shows "(\<exists>ord. ordersTable (snd (orderManager_handler e w event)) (orderId event, mgr_now_iso e)
                 = Some ord
            \<and> totalItems ord = length (orderItems event)
            \<and> totalValue ord
                = foldl (+) 0 (map (\<lambda>item. price item * quantity item) (orderItems event))
            \<and> (\<forall>k < length (orderItems event).
                  \<exists>row. orderItemsTable (snd (orderManager_handler e w event))
                          (orderId event, orderId event @ ''-item-'' @ string_of_nat k) = Some row
                      \<and> row_itemId row = orderId event @ ''-item-'' @ string_of_nat k
                      \<and> itemStatus row = Some ''PENDING''
                      \<and> row_timestamp row = Some (ord_timestamp ord)
                      \<and> row_itemDetail row = Some (itemDetail (orderItems event ! k))
                      \<and> row_quantity row = Some (quantity (orderItems event ! k))
                      \<and> row_price row = Some (price (orderItems event ! k))))
       \<and> (\<forall>recs recs2.
             fst (addOrderToDatabase e w (orderId event) (userId event) (orderItems event)
                    (orderStatus event)) = Inr recs
             \<and> fst (addOrderToDatabase e2 w2 (orderId event) (userId event) (orderItems event)
                    (orderStatus event)) = Inr recs2
             \<longrightarrow> map row_itemId recs2 = map row_itemId recs)"
proof -
  let ?ord = "make_orderRecord (mgr_now_iso e) (orderId event) (userId event)
               (orderStatus event) (orderItems event)"
  let ?w' = "snd (orderManager_handler e w event)"
  have o: "ordersTable ?w' (orderId event, mgr_now_iso e) = Some ?ord"
    using assms by (simp add: handler_tables persisted_ok_orders)
  have n: "totalItems ?ord = length (orderItems event)"
    by (simp add: make_orderRecord_def)
  have v: "totalValue ?ord
             = foldl (+) 0 (map (\<lambda>item. price item * quantity item) (orderItems event))"
    by (simp add: make_orderRecord_def foldl_map)
  have t: "ord_timestamp ?ord = mgr_now_iso e" by (simp add: make_orderRecord_def)
  have i: "\<forall>k < length (orderItems event).
             \<exists>row. orderItemsTable ?w'
                     (orderId event, orderId event @ ''-item-'' @ string_of_nat k) = Some row
                 \<and> row_itemId row = orderId event @ ''-item-'' @ string_of_nat k
                 \<and> itemStatus row = Some ''PENDING''
                 \<and> row_timestamp row = Some (ord_timestamp ?ord)
                 \<and> row_itemDetail row = Some (itemDetail (orderItems event ! k))
                 \<and> row_quantity row = Some (quantity (orderItems event ! k))
                 \<and> row_price row = Some (price (orderItems event ! k))"
  proof (intro allI impI)
    fix k assume k: "k < length (orderItems event)"
    from assms k
    have "orderItemsTable ?w' (orderId event, make_itemId (orderId event) k)
            = Some (make_orderItemRecords (mgr_now_iso e) (orderId event) (orderItems event) ! k)"
      by (simp add: handler_tables persisted_ok_items)
    with k t
    show "\<exists>row. orderItemsTable ?w'
                     (orderId event, orderId event @ ''-item-'' @ string_of_nat k) = Some row
                 \<and> row_itemId row = orderId event @ ''-item-'' @ string_of_nat k
                 \<and> itemStatus row = Some ''PENDING''
                 \<and> row_timestamp row = Some (ord_timestamp ?ord)
                 \<and> row_itemDetail row = Some (itemDetail (orderItems event ! k))
                 \<and> row_quantity row = Some (quantity (orderItems event ! k))
                 \<and> row_price row = Some (price (orderItems event ! k))"
      by (simp add: nth_make_orderItemRecords make_itemId_def)
  qed
  have r: "\<forall>recs recs2.
             fst (addOrderToDatabase e w (orderId event) (userId event) (orderItems event)
                    (orderStatus event)) = Inr recs
             \<and> fst (addOrderToDatabase e2 w2 (orderId event) (userId event) (orderItems event)
                    (orderStatus event)) = Inr recs2
             \<longrightarrow> map row_itemId recs2 = map row_itemId recs"
    by (auto simp: addOrderToDatabase_def Let_def make_orderItemRecords_def
        split: if_splits)
  from o n v i r show ?thesis by blast
qed

lemma string_of_nat_0: "string_of_nat 0 = ''0''"
  by (simp add: string_of_nat.simps [of 0] digit_char_def)

theorem ingestion_postcondition_witness:
  "put_ok (example_mgr_env True True True) \<and> batch_ok (example_mgr_env True True True)
   \<and> (\<exists>ord. ordersTable (snd (orderManager_handler (example_mgr_env True True True)
                              empty_world example_event))
               (''order-001'', ''2025-01-01T00:00:00.000Z'') = Some ord
          \<and> totalItems ord = 1 \<and> totalValue ord = 99999 / 100
          \<and> (\<exists>row. orderItemsTable (snd (orderManager_handler (example_mgr_env True True True)
                                       empty_world example_event))
                      (''order-001'', ''order-001-item-0'') = Some row
                \<and> row_itemId row = ''order-001-item-0''
                \<and> itemStatus row = Some ''PENDING''
                \<and> row_timestamp row = Some (ord_timestamp ord)
                \<and> row_itemDetail row = Some ''Laptop''
                \<and> row_quantity row = Some 1
                \<and> row_price row = Some (99999 / 100)))"
proof -
  let ?e = "example_mgr_env True True True"
  have p: "put_ok ?e" and b: "batch_ok ?e" by (simp_all add: example_mgr_env_def)
  have ev: "orderId example_event = ''order-001''"
    "orderItems example_event = [\<lparr>itemDetail = ''Laptop'', quantity = 1, price = 99999 / 100\<rparr>]"
    by (simp_all add: example_event_def)
  have ts: "mgr_now_iso ?e = ''2025-01-01T00:00:00.000Z''" by (simp add: example_mgr_env_def)
  from ingestion_postcondition [OF p b, of empty_world example_event] p b
  show ?thesis by (simp add: ev ts string_of_nat_0)
qed

text \<open>
  C2 as stated fails: with the \<open>PutCommand\<close> resolving and the \<open>BatchWriteCommand\<close>
  throwing, ingestion fails, the order record has been written and the item record has not.
\<close>

theorem batch_failure_leaves_order:
  "isl (fst (orderManager_handler (example_mgr_env True False True) empty_world example_event))
   \<and> ordersTable (snd (orderManager_handler (example_mgr_env True False True)
                         empty_world example_event))
        (''order-001'', ''2025-01-01T00:00:00.000Z'') \<noteq> None
   \<and> ordersTable empty_world (''order-001'', ''2025-01-01T00:00:00.000Z'') = None
   \<and> orderItemsTable (snd (orderManager_handler (example_mgr_env True False True)
                             empty_world example_event))
        (''order-001'', ''order-001-item-0'') = None"
  by (simp add: orderManager_handler_def addOrderToDatabase_def Let_def log_effect_def
      example_mgr_env_def empty_world_def example_event_def)

text \<open>
  C2, as amended. The order record and the item records are written by two calls, a
  \<open>PutCommand\<close> and then a \<open>BatchWriteCommand\<close>, and nothing is undone. When the
  put throws, ingestion fails and both tables and the queue are as before. When the put
  resolves and the batch write throws, ingestion fails with the item table and the queue as
  before, and the order record stays written. When both resolve, the order record and every
  item record exist.
\<close>

theorem persistence_outcomes:
  "(\<not> put_ok e \<longrightarrow>
      isl (fst (orderManager_handler e w event))
      \<and> ordersTable (snd (orderManager_handler e w event)) = ordersTable w
      \<and> orderItemsTable (snd (orderManager_handler e w event)) = orderItemsTable w
      \<and> queue (snd (orderManager_handler e w event)) = queue w)
   \<and> (put_ok e \<and> \<not> batch_ok e \<longrightarrow>
        isl (fst (orderManager_handler e w event))
        \<and> ordersTable (snd (orderManager_handler e w event))
            = (ordersTable w)((orderId event, mgr_now_iso e) \<mapsto>
                make_orderRecord (mgr_now_iso e) (orderId event) (userId event)
                  (orderStatus event) (orderItems event))
        \<and> orderItemsTable (snd (orderManager_handler e w event)) = orderItemsTable w
        \<and> queue (snd (orderManager_handler e w event)) = queue w)
   \<and> (put_ok e \<and> batch_ok e \<longrightarrow>
        ordersTable (snd (orderManager_handler e w event)) (orderId event, mgr_now_iso e)
          = Some (make_orderRecord (mgr_now_iso e) (orderId event) (userId event)
                    (orderStatus event) (orderItems event))
        \<and> (\<forall>k < length (orderItems event).
              orderItemsTable (snd (orderManager_handler e w event))
                (orderId event, make_itemId (orderId event) k)
              = Some (make_orderItemRecords (mgr_now_iso e) (orderId event)
                        (orderItems event) ! k)))"
proof -
  have a: "\<not> put_ok e \<longrightarrow>
      isl (fst (orderManager_handler e w event))
      \<and> ordersTable (snd (orderManager_handler e w event)) = ordersTable w
      \<and> orderItemsTable (snd (orderManager_handler e w event)) = orderItemsTable w
      \<and> queue (snd (orderManager_handler e w event)) = queue w"
    by (simp add: handler_persistence_fails persisted_def addOrderToDatabase_put_fails)
  have b: "put_ok e \<and> \<not> batch_ok e \<longrightarrow>
        isl (fst (orderManager_handler e w event))
        \<and> ordersTable (snd (orderManager_handler e w event))
            = (ordersTable w)((orderId event, mgr_now_iso e) \<mapsto>
                make_orderRecord (mgr_now_iso e) (orderId event) (userId event)
                  (orderStatus event) (orderItems event))
        \<and> orderItemsTable (snd (orderManager_handler e w event)) = orderItemsTable w
        \<and> queue (snd (orderManager_handler e w event)) = queue w"
    by (simp add: handler_persistence_fails persisted_def addOrderToDatabase_batch_fails)
  have c: "put_ok e \<and> batch_ok e \<longrightarrow>
        ordersTable (snd (orderManager_handler e w event)) (orderId event, mgr_now_iso e)
          = Some (make_orderRecord (mgr_now_iso e) (orderId event) (userId event)
                    (orderStatus event) (orderItems event))
        \<and> (\<forall>k < length (orderItems event).
              orderItemsTable (snd (orderManager_handler e w event))
                (orderId event, make_itemId (orderId event) k)
              = Some (make_orderItemRecords (mgr_now_iso e) (orderId event)
                        (orderItems event) ! k))"
    by (simp add: handler_tables persisted_ok_orders persisted_ok_items)
  from a b c show ?thesis by (intro conjI)
qed

theorem persistence_outcomes_witness:
  "\<not> put_ok (example_mgr_env False True True)
   \<and> isl (fst (orderManager_handler (example_mgr_env False True True) empty_world example_event))
   \<and> ordersTable (snd (orderManager_handler (example_mgr_env False True True)
                         empty_world example_event)) = Map.empty
   \<and> orderItemsTable (snd (orderManager_handler (example_mgr_env False True True)
                         empty_world example_event)) = Map.empty
   \<and> queue (snd (orderManager_handler (example_mgr_env False True True)
                         empty_world example_event)) = []
   \<and> put_ok (example_mgr_env True False True) \<and> \<not> batch_ok (example_mgr_env True False True)
   \<and> isl (fst (orderManager_handler (example_mgr_env True False True) empty_world example_event))
   \<and> orderItemsTable (snd (orderManager_handler (example_mgr_env True False True)
                         empty_world example_event)) = Map.empty
   \<and> queue (snd (orderManager_handler (example_mgr_env True False True)
                         empty_world example_event)) = []
   \<and> put_ok (example_mgr_env True True False) \<and> batch_ok (example_mgr_env True True False)
   \<and> orderItemsTable (snd (orderManager_handler (example_mgr_env True True False)
                         empty_world example_event)) (''order-001'', ''order-001-item-0'')
       = Some (example_row ''order-001-item-0'' ''PENDING'')"
proof -
  have e: "\<not> put_ok (example_mgr_env False True True)"
    "put_ok (example_mgr_env True False True)" "\<not> batch_ok (example_mgr_env True False True)"
    "put_ok (example_mgr_env True True False)" "batch_ok (example_mgr_env True True False)"
    by (simp_all add: example_mgr_env_def)
  have w: "ordersTable empty_world = Map.empty" "orderItemsTable empty_world = Map.empty"
    "queue empty_world = []"
    by (simp_all add: empty_world_def)
  have r: "make_orderItemRecords (mgr_now_iso (example_mgr_env True True False))
             (orderId example_event) (orderItems example_event) ! 0
           = example_row ''order-001-item-0'' ''PENDING''"
    "make_itemId (orderId example_event) 0 = ''order-001-item-0''"
    "orderId example_event = ''order-001''"
    "length (orderItems example_event) = 1"
    by (simp_all add: make_orderItemRecords_def make_itemId_def string_of_nat_0
        example_event_def example_row_def example_mgr_env_def)
  from persistence_outcomes [of "example_mgr_env False True True" empty_world example_event]
    persistence_outcomes [of "example_mgr_env True False True" empty_world example_event]
    persistence_outcomes [of "example_mgr_env True True False" empty_world example_event]
    e w r
  show ?thesis by simp
qed

lemma new_effects_append: "effects w' = effects w @ xs \<Longrightarrow> new_effects w w' = xs"
  by (simp add: new_effects_def)

lemma persisted_effects:
  "effects (persisted e w event)
     = effects w @ (if put_ok e then [DbPut (orderId event),
                                      DbBatchWrite (length (orderItems event))]
                    else [DbPut (orderId event)])"
  by (simp add: persisted_def addOrderToDatabase_def Let_def log_effect_def)

lemma persisted_queue [simp]: "queue (persisted e w event) = queue w"
  by (simp add: persisted_def addOrderToDatabase_def Let_def log_effect_def)

lemma map_enumerate_snd: "map (\<lambda>(i, c). f c) (enumerate n cs) = map f cs"
  by (induction cs arbitrary: n) simp_all

text \<open>
  C6. Enqueue only after persistence, no rollback on an enqueue failure. When the put or
  the batch write throws, ingestion fails, the queue is as before and no \<open>sqs.send\<close> is
  made. When both resolve, the calls made are the put, the batch write and then the sends,
  in that order. When both resolve and some send throws, ingestion fails with the send's
  error and every item of the order is in OrderItemsTable with status PENDING. A success
  response is only returned when the put, the batch write and every send resolved.
\<close>

theorem enqueue_only_after_persistence:
  "(\<not> (put_ok e \<and> batch_ok e) \<longrightarrow>
      isl (fst (orderManager_handler e w event))
      \<and> queue (snd (orderManager_handler e w event)) = queue w
      \<and> (\<forall>d. SqsSend d \<notin> set (new_effects w (snd (orderManager_handler e w event)))))
   \<and> (put_ok e \<and> batch_ok e \<longrightarrow>
        new_effects w (snd (orderManager_handler e w event))
          = [DbPut (orderId event), DbBatchWrite (length (orderItems event))]
            @ map (\<lambda>c. SqsSend (MessageDeduplicationId c))
                (make_commands e (make_orderItemRecords (mgr_now_iso e) (orderId event)
                                    (orderItems event))))
   \<and> (put_ok e \<and> batch_ok e \<and> \<not> list_all (send_ok e) [0..<length (orderItems event)] \<longrightarrow>
        fst (orderManager_handler e w event) = Inl SqsError
        \<and> (\<forall>k < length (orderItems event).
              status_at (snd (orderManager_handler e w event))
                (orderId event, make_itemId (orderId event) k) = Some ''PENDING''))
   \<and> (\<forall>resp. fst (orderManager_handler e w event) = Inr resp \<longrightarrow>
        put_ok e \<and> batch_ok e \<and> list_all (send_ok e) [0..<length (orderItems event)])"
proof -
  let ?H = "orderManager_handler e w event"
  have a: "\<not> (put_ok e \<and> batch_ok e) \<longrightarrow>
      isl (fst ?H) \<and> queue (snd ?H) = queue w
      \<and> (\<forall>d. SqsSend d \<notin> set (new_effects w (snd ?H)))"
  proof
    assume f: "\<not> (put_ok e \<and> batch_ok e)"
    then have h: "?H = (Inl DynamoDBError, persisted e w event)"
      by (rule handler_persistence_fails)
    have "\<forall>d. SqsSend d \<notin> set (new_effects w (persisted e w event))"
      by (simp add: new_effects_append [OF persisted_effects])
    with h show "isl (fst ?H) \<and> queue (snd ?H) = queue w
      \<and> (\<forall>d. SqsSend d \<notin> set (new_effects w (snd ?H)))"
      by simp
  qed
  have b: "put_ok e \<and> batch_ok e \<longrightarrow>
        new_effects w (snd ?H)
          = [DbPut (orderId event), DbBatchWrite (length (orderItems event))]
            @ map (\<lambda>c. SqsSend (MessageDeduplicationId c))
                (make_commands e (make_orderItemRecords (mgr_now_iso e) (orderId event)
                                    (orderItems event)))"
    by (auto intro!: new_effects_append
        simp: handler_persistence_ok sqs_send_all_effects persisted_effects map_enumerate_snd)
  have c: "put_ok e \<and> batch_ok e \<and> \<not> list_all (send_ok e) [0..<length (orderItems event)] \<longrightarrow>
        fst ?H = Inl SqsError
        \<and> (\<forall>k < length (orderItems event).
              status_at (snd ?H) (orderId event, make_itemId (orderId event) k)
                = Some ''PENDING'')"
    by (simp add: status_at_def handler_tables persisted_ok_items nth_make_orderItemRecords)
       (simp add: handler_persistence_ok)
  have d: "\<forall>resp. fst ?H = Inr resp \<longrightarrow>
        put_ok e \<and> batch_ok e \<and> list_all (send_ok e) [0..<length (orderItems event)]"
  proof (intro allI impI)
    fix resp assume r: "fst ?H = Inr resp"
    have pb: "put_ok e \<and> batch_ok e"
    proof (rule ccontr)
      assume "\<not> (put_ok e \<and> batch_ok e)"
      then have "?H = (Inl DynamoDBError, persisted e w event)"
        by (rule handler_persistence_fails)
      with r show False by simp
    qed
    with r have "list_all (send_ok e) [0..<length (orderItems event)]"
      by (simp add: handler_persistence_ok split: if_splits)
    with pb show "put_ok e \<and> batch_ok e \<and> list_all (send_ok e) [0..<length (orderItems event)]"
      by simp
  qed
  from a b c d show ?thesis by (intro conjI)
qed

theorem enqueue_only_after_persistence_witness:
  "\<not> (put_ok (example_mgr_env True False True) \<and> batch_ok (example_mgr_env True False True))
   \<and> isl (fst (orderManager_handler (example_mgr_env True False True) empty_world example_event))
   \<and> queue (snd (orderManager_handler (example_mgr_env True False True)
                    empty_world example_event)) = []
   \<and> new_effects empty_world (snd (orderManager_handler (example_mgr_env True False True)
                                     empty_world example_event))
       = [DbPut ''order-001'', DbBatchWrite 1]
   \<and> put_ok (example_mgr_env True True False) \<and> batch_ok (example_mgr_env True True False)
   \<and> \<not> list_all (send_ok (example_mgr_env True True False))
           [0..<length (orderItems example_event)]
   \<and> fst (orderManager_handler (example_mgr_env True True False) empty_world example_event)
       = Inl SqsError
   \<and> status_at (snd (orderManager_handler (example_mgr_env True True False)
                       empty_world example_event))
        (''order-001'', ''order-001-item-0'') = Some ''PENDING''
   \<and> fst (orderManager_handler (example_mgr_env True True True) empty_world example_event)
       = Inr success_response
   \<and> list_all (send_ok (example_mgr_env True True True))
         [0..<length (orderItems example_event)]"
proof -
  let ?E0 = "example_mgr_env True False True"
  let ?E1 = "example_mgr_env True True False"
  let ?E2 = "example_mgr_env True True True"
  have e: "put_ok ?E0" "\<not> batch_ok ?E0" "put_ok ?E1" "batch_ok ?E1" "put_ok ?E2" "batch_ok ?E2"
    "\<not> list_all (send_ok ?E1) [0..<length (orderItems example_event)]"
    "list_all (send_ok ?E2) [0..<length (orderItems example_event)]"
    by (simp_all add: example_mgr_env_def example_event_def)
  have ev: "orderId example_event = ''order-001''" "length (orderItems example_event) = 1"
    "make_itemId ''order-001'' 0 = ''order-001-item-0''" "queue empty_world = []"
    by (simp_all add: example_event_def make_itemId_def string_of_nat_0 empty_world_def)
  have n: "new_effects empty_world (snd (orderManager_handler ?E0 empty_world example_event))
             = [DbPut ''order-001'', DbBatchWrite 1]"
    using e(1,2)
    by (simp add: handler_persistence_fails new_effects_append [OF persisted_effects] ev)
  have s: "fst (orderManager_handler ?E2 empty_world example_event) = Inr success_response"
    using e(5,6,8) by (simp add: handler_persistence_ok)
  from enqueue_only_after_persistence [of ?E0 empty_world example_event]
    enqueue_only_after_persistence [of ?E1 empty_world example_event]
    enqueue_only_after_persistence [of ?E2 empty_world example_event] e ev n s
  show ?thesis by simp
qed

lemma not_digit_dash: "\<not> is_digit CHR ''-''"
  by (simp add: is_digit_def)

lemma digits_prefix_unique:
  assumes "\<forall>c \<in> set a. is_digit c" and "\<forall>c \<in> set a'. is_digit c" and "\<not> is_digit d"
    and "a @ d # y = a' @ d # y'"
  shows "a = a' \<and> y = y'"
  using assms
proof (induction a arbitrary: a')
  case Nil
  then show ?case by (cases a') auto
next
  case (Cons c a)
  then show ?case by (cases a') auto
qed

lemma digits_suffix_unique:
  assumes "\<forall>c \<in> set a. is_digit c" and "\<forall>c \<in> set a'. is_digit c" and "\<not> is_digit d"
    and "x @ d # a = x' @ d # a'"
  shows "a = a' \<and> x = x'"
proof -
  from assms(4) have "rev (x @ d # a) = rev (x' @ d # a')" by simp
  then have "rev a @ d # rev x = rev a' @ d # rev x'" by simp
  moreover have "\<forall>c \<in> set (rev a). is_digit c" "\<forall>c \<in> set (rev a'). is_digit c"
    using assms(1,2) by simp_all
  ultimately have "rev a = rev a' \<and> rev x = rev x'"
    using assms(3) by (intro digits_prefix_unique)
  then show ?thesis by simp
qed

lemma make_dedupId_inj:
  "make_dedupId (make_itemId oid i) t i = make_dedupId (make_itemId oid' i') t' i'
     \<longleftrightarrow> oid = oid' \<and> i = i' \<and> t = t'"
proof
  assume eq: "make_dedupId (make_itemId oid i) t i = make_dedupId (make_itemId oid' i') t' i'"
  let ?x = "oid @ ''-item-'' @ string_of_nat i @ ''-'' @ string_of_nat t"
  let ?x' = "oid' @ ''-item-'' @ string_of_nat i' @ ''-'' @ string_of_nat t'"
  from eq have "?x @ CHR ''-'' # string_of_nat i = ?x' @ CHR ''-'' # string_of_nat i'"
    by (simp add: make_dedupId_def make_itemId_def)
  then have 1: "string_of_nat i = string_of_nat i' \<and> ?x = ?x'"
    by (rule digits_suffix_unique [OF string_of_nat_digits string_of_nat_digits not_digit_dash])
  then have i: "i = i'" by (simp add: string_of_nat_inj)
  let ?y = "oid @ ''-item-'' @ string_of_nat i"
  let ?y' = "oid' @ ''-item-'' @ string_of_nat i'"
  from 1 have x: "?x = ?x'" by (rule conjunct2)
  have ya: "?y @ CHR ''-'' # string_of_nat t = ?x" by simp
  have yb: "?x' = ?y' @ CHR ''-'' # string_of_nat t'" by simp
  from ya x yb have "?y @ CHR ''-'' # string_of_nat t = ?y' @ CHR ''-'' # string_of_nat t'"
    by (rule trans [OF trans])
  then have 2: "string_of_nat t = string_of_nat t' \<and> ?y = ?y'"
    by (rule digits_suffix_unique [OF string_of_nat_digits string_of_nat_digits not_digit_dash])
  then have t: "t = t'" by (simp add: string_of_nat_inj)
  from 2 i have "oid = oid'" by simp
  with i t show "oid = oid' \<and> i = i' \<and> t = t'" by simp
next
  assume "oid = oid' \<and> i = i' \<and> t = t'"
  then show "make_dedupId (make_itemId oid i) t i = make_dedupId (make_itemId oid' i') t' i'"
    by simp
qed

lemma dedupIds_make_commands:
  "map MessageDeduplicationId
     (make_commands e (make_orderItemRecords ts oid items))
   = map (\<lambda>i. make_dedupId (make_itemId oid i) (date_now e i) i) [0..<length items]"
  by (rule nth_equalityI) (simp_all add: nth_make_commands nth_make_orderItemRecords)

lemma distinct_dedupIds:
  "distinct (map MessageDeduplicationId
     (make_commands e (make_orderItemRecords ts oid items)))"
  unfolding dedupIds_make_commands
  by (rule distinct_map [THEN iffD2]) (auto intro!: inj_onI simp: make_dedupId_inj)

lemma string_of_nat_example: "string_of_nat 1735689600000 = ''1735689600000''"
  by (simp add: string_of_nat.simps digit_char_def)

lemma handler_success:
  assumes "put_ok e" and "batch_ok e"
    and "list_all (send_ok e) [0..<length (orderItems event)]"
  shows "fst (orderManager_handler e w event) = Inr success_response"
    and "queue (snd (orderManager_handler e w event))
           = queue w @ make_commands e
               (make_orderItemRecords (mgr_now_iso e) (orderId event) (orderItems event))"
  using assms by (simp_all add: handler_persistence_ok sqs_send_all_queue_ok)

lemma example_commands:
  "make_commands (example_mgr_env True True True)
     (make_orderItemRecords (mgr_now_iso (example_mgr_env True True True))
        (orderId example_event) (orderItems example_event))
   = [\<lparr>MessageBody = example_row ''order-001-item-0'' ''PENDING'',
       MessageGroupId = ''order-001'',
       MessageDeduplicationId = ''order-001-item-0-1735689600000-0''\<rparr>]"
  by (simp add: make_commands_def make_orderItemRecords_def make_dedupId_def
      make_itemId_def string_of_nat_0 string_of_nat_example example_mgr_env_def
      example_event_def example_row_def)

text \<open>
  C9, as amended. For a successfully ingested order the queue receives one message per
  item, in item order, and exactly one \<open>sqs.send\<close> is made per item; every message's
  MessageGroupId is the orderId; the deduplication id of the message of item \<open>i\<close> is made
  of its itemId, the value of \<open>Date.now()\<close> and \<open>i\<close>; the deduplication ids of one
  ingestion call are pairwise distinct. Two enqueue attempts, of any calls, have the same
  deduplication id exactly when they agree on the orderId, the index and the value of
  \<open>Date.now()\<close>.
\<close>

theorem enqueue_shape:
  assumes "put_ok e" and "batch_ok e"
    and "list_all (send_ok e) [0..<length (orderItems event)]"
  shows "fst (orderManager_handler e w event) = Inr success_response
       \<and> (\<exists>cmds. queue (snd (orderManager_handler e w event)) = queue w @ cmds
              \<and> length cmds = length (orderItems event)
              \<and> new_effects w (snd (orderManager_handler e w event))
                  = [DbPut (orderId event), DbBatchWrite (length (orderItems event))]
                    @ map (\<lambda>c. SqsSend (MessageDeduplicationId c)) cmds
              \<and> (\<forall>i < length (orderItems event).
                    MessageGroupId (cmds ! i) = orderId event
                    \<and> row_itemId (MessageBody (cmds ! i)) = make_itemId (orderId event) i
                    \<and> MessageDeduplicationId (cmds ! i)
                        = make_dedupId (make_itemId (orderId event) i) (date_now e i) i)
              \<and> distinct (map MessageDeduplicationId cmds))
       \<and> (make_dedupId (make_itemId oid1 i1) t1 i1 = make_dedupId (make_itemId oid2 i2) t2 i2
            \<longleftrightarrow> oid1 = oid2 \<and> i1 = i2 \<and> t1 = t2)"
proof -
  let ?H = "orderManager_handler e w event"
  let ?recs = "make_orderItemRecords (mgr_now_iso e) (orderId event) (orderItems event)"
  let ?cmds = "make_commands e ?recs"
  have r: "fst ?H = Inr success_response"
    using assms by (rule handler_success)
  have q: "queue (snd ?H) = queue w @ ?cmds"
    using assms by (rule handler_success)
  have l: "length ?cmds = length (orderItems event)" by simp
  have n: "new_effects w (snd ?H)
             = [DbPut (orderId event), DbBatchWrite (length (orderItems event))]
               @ map (\<lambda>c. SqsSend (MessageDeduplicationId c)) ?cmds"
    using assms(1,2)
    by (auto intro!: new_effects_append
        simp: handler_persistence_ok sqs_send_all_effects persisted_effects map_enumerate_snd)
  have s: "\<forall>i < length (orderItems event).
             MessageGroupId (?cmds ! i) = orderId event
             \<and> row_itemId (MessageBody (?cmds ! i)) = make_itemId (orderId event) i
             \<and> MessageDeduplicationId (?cmds ! i)
                 = make_dedupId (make_itemId (orderId event) i) (date_now e i) i"
    by (simp add: nth_make_commands nth_make_orderItemRecords)
  have d: "distinct (map MessageDeduplicationId ?cmds)" by (rule distinct_dedupIds)
  from q l n s d
  have "\<exists>cmds. queue (snd ?H) = queue w @ cmds
              \<and> length cmds = length (orderItems event)
              \<and> new_effects w (snd ?H)
                  = [DbPut (orderId event), DbBatchWrite (length (orderItems event))]
                    @ map (\<lambda>c. SqsSend (MessageDeduplicationId c)) cmds
              \<and> (\<forall>i < length (orderItems event).
                    MessageGroupId (cmds ! i) = orderId event
                    \<and> row_itemId (MessageBody (cmds ! i)) = make_itemId (orderId event) i
                    \<and> MessageDeduplicationId (cmds ! i)
                        = make_dedupId (make_itemId (orderId event) i) (date_now e i) i)
              \<and> distinct (map MessageDeduplicationId cmds)"
    by (intro exI [of _ ?cmds] conjI)
  with r make_dedupId_inj [of oid1 i1 t1 oid2 i2 t2] show ?thesis by (intro conjI)
qed

theorem enqueue_shape_witness:
  "put_ok (example_mgr_env True True True) \<and> batch_ok (example_mgr_env True True True)
   \<and> list_all (send_ok (example_mgr_env True True True))
        [0..<length (orderItems example_event)]
   \<and> fst (orderManager_handler (example_mgr_env True True True) empty_world example_event)
       = Inr success_response
   \<and> queue (snd (orderManager_handler (example_mgr_env True True True)
                    empty_world example_event))
       = [\<lparr>MessageBody = example_row ''order-001-item-0'' ''PENDING'',
           MessageGroupId = ''order-001'',
           MessageDeduplicationId = ''order-001-item-0-1735689600000-0''\<rparr>]
   \<and> make_dedupId (make_itemId ''order-001'' 0) 1735689600000 0
       \<noteq> make_dedupId (make_itemId ''order-001'' 0) 1735689600001 0"
proof -
  let ?E = "example_mgr_env True True True"
  have e: "put_ok ?E" "batch_ok ?E"
    "list_all (send_ok ?E) [0..<length (orderItems example_event)]"
    by (simp_all add: example_mgr_env_def example_event_def)
  have q: "queue (snd (orderManager_handler ?E empty_world example_event))
       = [\<lparr>MessageBody = example_row ''order-001-item-0'' ''PENDING'',
           MessageGroupId = ''order-001'',
           MessageDeduplicationId = ''order-001-item-0-1735689600000-0''\<rparr>]"
    by (simp add: handler_success(2) [OF e] example_commands) (simp add: empty_world_def)
  from enqueue_shape [OF e, of empty_world "''order-001''" 0 1735689600000 "''order-001''" 0
      1735689600001] e q
  show ?thesis by simp
qed

lemma example_commands_other_user:
  "make_commands (example_mgr_env True True True)
     (make_orderItemRecords (mgr_now_iso (example_mgr_env True True True))
        (orderId example_event_other_user) (orderItems example_event_other_user))
   = [\<lparr>MessageBody = example_row ''order-001-item-0'' ''PENDING'',
       MessageGroupId = ''order-001'',
       MessageDeduplicationId = ''order-001-item-0-1735689600000-0''\<rparr>]"
  by (simp add: make_commands_def make_orderItemRecords_def make_dedupId_def
      make_itemId_def string_of_nat_0 string_of_nat_example example_mgr_env_def
      example_event_other_user_def example_event_def example_row_def)

text \<open>
  C9 as stated fails: two ingestion calls for the same orderId that read the same
  millisecond from \<open>Date.now()\<close> enqueue messages with the same deduplication id. The
  two requests differ in their userId, so they are not the same request to the
  idempotency wrapper.
\<close>

theorem same_millisecond_same_dedupId:
  "example_event_other_user \<noteq> example_event
   \<and> fst (orderManager_handler (example_mgr_env True True True) empty_world example_event)
       = Inr success_response
   \<and> fst (orderManager_handler (example_mgr_env True True True)
           (snd (orderManager_handler (example_mgr_env True True True) empty_world
                   example_event))
           example_event_other_user) = Inr success_response
   \<and> map MessageDeduplicationId
       (queue (snd (orderManager_handler (example_mgr_env True True True)
          (snd (orderManager_handler (example_mgr_env True True True) empty_world
                  example_event))
          example_event_other_user)))
      = [''order-001-item-0-1735689600000-0'', ''order-001-item-0-1735689600000-0'']"
proof -
  let ?E = "example_mgr_env True True True"
  have e: "put_ok ?E" "batch_ok ?E"
    "list_all (send_ok ?E) [0..<length (orderItems example_event)]"
    by (simp_all add: example_mgr_env_def example_event_def)
  have e': "list_all (send_ok ?E) [0..<length (orderItems example_event_other_user)]"
    by (simp add: example_mgr_env_def example_event_other_user_def example_event_def)
  have d: "example_event_other_user \<noteq> example_event"
  proof
    assume "example_event_other_user = example_event"
    then have "userId example_event_other_user = userId example_event" by simp
    then show False by (simp add: example_event_other_user_def example_event_def)
  qed
  from d show ?thesis
    by (simp add: handler_success [OF e] handler_success [OF e(1,2) e'] example_commands
        example_commands_other_user)
       (simp add: empty_world_def)
qed

end
